theory Spec2Isabelle
  imports Complex_Main "HOL-Library.AList"
begin

section \<open>Python values\<close>

text \<open>
  The service moves JSON-shaped Python values around: challenges, their \<open>ui_data\<close> and
  \<open>solution\<close>, the answers posted by clients and the dictionaries returned to them.
  A dictionary is an association list in insertion order, as Python keeps it. Strings are
  lists of 8-bit characters and stand for ASCII text. A Python \<open>float\<close> is the real
  number it denotes (NaN and the infinities are outside the model).
\<close>

datatype json =
    JNull
  | JBool bool
  | JInt int
  | JFloat real
  | JStr string
  | JList "json list"
  | JDict "(string \<times> json) list"

text \<open>
  An exception is its class name and the text \<open>str(e)\<close> gives. The texts of errors
  raised by built-in operations are indicative only; nothing below depends on them.
\<close>

datatype exn = Exn string string

fun str_exn :: "exn \<Rightarrow> string" where
  "str_exn (Exn cls msg) = msg"

text \<open>Truthiness, as \<open>bool(v)\<close>, \<open>not v\<close> and \<open>a or b\<close> use it.\<close>

fun truthy :: "json \<Rightarrow> bool" where
  "truthy JNull = False"
| "truthy (JBool b) = b"
| "truthy (JInt i) = (i \<noteq> 0)"
| "truthy (JFloat r) = (r \<noteq> 0)"
| "truthy (JStr s) = (s \<noteq> [])"
| "truthy (JList xs) = (xs \<noteq> [])"
| "truthy (JDict d) = (d \<noteq> [])"

definition py_or :: "json \<Rightarrow> json \<Rightarrow> json" where
  "py_or a b = (if truthy a then a else b)"

subsection \<open>Strings\<close>

definition digit_char :: "nat \<Rightarrow> char" where
  "digit_char n = ''0123456789'' ! (n mod 10)"

fun str_nat :: "nat \<Rightarrow> string" where
  "str_nat n = (if n < 10 then [digit_char n] else str_nat (n div 10) @ [digit_char n])"

declare str_nat.simps [simp del]

definition str_int :: "int \<Rightarrow> string" where
  "str_int i = (if i < 0 then CHR ''-'' # str_nat (nat (- i)) else str_nat (nat i))"

definition is_space :: "char \<Rightarrow> bool" where
  "is_space c = (c \<in> set [CHR '' '', CHR 0x09, CHR 0x0A, CHR 0x0B, CHR 0x0C, CHR 0x0D,
                           CHR 0x1C, CHR 0x1D, CHR 0x1E, CHR 0x1F])"

definition strip :: "string \<Rightarrow> string" where
  "strip s = rev (dropWhile is_space (rev (dropWhile is_space s)))"

definition lower_char :: "char \<Rightarrow> char" where
  "lower_char c =
     (case map_of (zip ''ABCDEFGHIJKLMNOPQRSTUVWXYZ'' ''abcdefghijklmnopqrstuvwxyz'') c of
        Some l \<Rightarrow> l
      | None \<Rightarrow> c)"

definition lower :: "string \<Rightarrow> string" where
  "lower s = map lower_char s"

definition is_digit_char :: "char \<Rightarrow> bool" where
  "is_digit_char c = (let n = of_char c :: nat in 48 \<le> n \<and> n \<le> 57)"

text \<open>\<open>s.isdigit()\<close>: non-empty and digits only.\<close>

definition isdigit :: "string \<Rightarrow> bool" where
  "isdigit s = (s \<noteq> [] \<and> list_all is_digit_char s)"

text \<open>\<open>s.split(sep)\<close> for a one-character separator: always at least one piece.\<close>

fun split_on :: "char \<Rightarrow> string \<Rightarrow> string list" where
  "split_on sep [] = [[]]"
| "split_on sep (c # cs) =
     (if c = sep then [] # split_on sep cs
      else (case split_on sep cs of p # ps \<Rightarrow> (c # p) # ps | [] \<Rightarrow> [[c]]))"

fun starts_with :: "string \<Rightarrow> string \<Rightarrow> bool" where
  "starts_with [] t = True"
| "starts_with (c # s) [] = False"
| "starts_with (c # s) (d # t) = (c = d \<and> starts_with s t)"

text \<open>\<open>s in t\<close> for two strings: \<open>s\<close> occurs in \<open>t\<close> as a contiguous piece.\<close>

fun str_in :: "string \<Rightarrow> string \<Rightarrow> bool" where
  "str_in s [] = (s = [])"
| "str_in s (d # t) = (starts_with s (d # t) \<or> str_in s t)"

definition digit_val :: "char \<Rightarrow> int" where
  "digit_val c = int (of_char c) - 48"

definition digits_val :: "string \<Rightarrow> int" where
  "digits_val s = foldl (\<lambda>acc c. 10 * acc + digit_val c) 0 s"

text \<open>
  \<open>int(s)\<close> for a string: surrounding whitespace, one optional sign, then decimal
  digits in groups separated by single underscores. (The interpreter's limit on the
  number of digits is not modelled.)
\<close>

definition int_of_str :: "string \<Rightarrow> exn + int" where
  "int_of_str s =
     (let t = strip s;
          (neg, body) = (case t of
                           c # r \<Rightarrow> if c = CHR ''-'' then (True, r)
                                     else if c = CHR ''+'' then (False, r) else (False, t)
                         | [] \<Rightarrow> (False, t));
          groups = split_on CHR ''_'' body
      in if list_all isdigit groups
         then Inr ((if neg then - 1 else 1) * digits_val (concat groups))
         else Inl (Exn ''ValueError'' (''invalid literal for int() with base 10: '' @ s)))"

subsection \<open>Conversions and comparisons\<close>

text \<open>
  \<open>int(v)\<close>: a \<open>bool\<close> is an \<open>int\<close>, a \<open>float\<close> is truncated towards zero, a string
  is parsed, anything else has no integer value.
\<close>

fun py_int :: "json \<Rightarrow> exn + int" where
  "py_int (JBool b) = Inr (if b then 1 else 0)"
| "py_int (JInt i) = Inr i"
| "py_int (JFloat r) = Inr (if 0 \<le> r then \<lfloor>r\<rfloor> else \<lceil>r\<rceil>)"
| "py_int (JStr s) = int_of_str s"
| "py_int v = Inl (Exn ''TypeError'' ''int() argument must be a string or a real number'')"

text \<open>The numeric value of the three numeric types, which \<open>==\<close> compares across types.\<close>

fun py_num :: "json \<Rightarrow> real option" where
  "py_num (JBool b) = Some (if b then 1 else 0)"
| "py_num (JInt i) = Some (real_of_int i)"
| "py_num (JFloat r) = Some r"
| "py_num v = None"

text \<open>
  \<open>a == b\<close>: numbers by value, strings and lists element by element, dictionaries
  key by key whatever the order of insertion; values of different kinds are unequal.
\<close>

fun py_eq :: "json \<Rightarrow> json \<Rightarrow> bool" where
  "py_eq (JList xs) b =
     (case b of JList ys \<Rightarrow> list_all2 py_eq xs ys | _ \<Rightarrow> False)"
| "py_eq (JDict d) b =
     (case b of
        JDict e \<Rightarrow> length d = length e \<and>
                   list_all (\<lambda>kv. case map_of e (fst kv) of
                                     None \<Rightarrow> False
                                   | Some v \<Rightarrow> py_eq (snd kv) v) d
      | _ \<Rightarrow> False)"
| "py_eq (JStr s) b = (case b of JStr t \<Rightarrow> s = t | _ \<Rightarrow> False)"
| "py_eq JNull b = (b = JNull)"
| "py_eq a b = (case (py_num a, py_num b) of (Some x, Some y) \<Rightarrow> x = y | _ \<Rightarrow> False)"

text \<open>\<open>d.get(k, default)\<close>; a value that is no dictionary has no \<open>get\<close>.\<close>

definition py_get :: "json \<Rightarrow> string \<Rightarrow> json \<Rightarrow> exn + json" where
  "py_get v k dflt =
     (case v of
        JDict d \<Rightarrow> Inr (case map_of d k of Some x \<Rightarrow> x | None \<Rightarrow> dflt)
      | _ \<Rightarrow> Inl (Exn ''AttributeError'' ''object has no attribute get''))"

text \<open>
  \<open>k in v\<close> for a string \<open>k\<close>: a key of a dictionary, a piece of a string, an element
  of a list; other values are not iterable.
\<close>

definition py_contains :: "string \<Rightarrow> json \<Rightarrow> exn + bool" where
  "py_contains k v =
     (case v of
        JDict d \<Rightarrow> Inr (k \<in> set (map fst d))
      | JStr s \<Rightarrow> Inr (str_in k s)
      | JList xs \<Rightarrow> Inr (list_ex (\<lambda>x. py_eq x (JStr k)) xs)
      | _ \<Rightarrow> Inl (Exn ''TypeError'' ''argument is not iterable''))"

text \<open>Sequencing of computations that may raise.\<close>

definition bind_exn :: "exn + 'a \<Rightarrow> ('a \<Rightarrow> exn + 'b) \<Rightarrow> exn + 'b" where
  "bind_exn m f = (case m of Inl e \<Rightarrow> Inl e | Inr x \<Rightarrow> f x)"

text \<open>\<open>try: body except Exception as e: handler(e)\<close>.\<close>

definition try_except :: "exn + 'a \<Rightarrow> (exn \<Rightarrow> exn + 'a) \<Rightarrow> exn + 'a" where
  "try_except body handler = (case body of Inl e \<Rightarrow> handler e | Inr x \<Rightarrow> Inr x)"

section \<open>The world outside the program\<close>

text \<open>
  What the local generator draws from its random source: the kind of challenge that
  \<open>rnd.choice\<close> picked, and inside each kind the values drawn for it.
\<close>

datatype draws =
    DrawText string
  | DrawMath int int string
  | DrawPattern "string list" "int list"
  | DrawImagePoint string int int int
  | DrawImageWord string
  | DrawAudioWord string
  | DrawAudioDigits "int list"
  | DrawColor "int \<times> int \<times> int"

text \<open>
  The libraries and services the program calls are parameters of the model, so that every
  theorem holds whatever they compute:
  \<^item> \<open>HMAC_SECRET\<close>, read from the process environment at start-up, and
    \<open>hmac_sha256_hex key msg\<close> for \<open>hmac.new(key, msg, hashlib.sha256).hexdigest()\<close>;
  \<^item> \<open>clock n\<close>, the value of the \<open>n\<close>-th call of \<open>time.time()\<close>;
  \<^item> \<open>json_dumps\<close> for \<open>json.dumps(v, sort_keys=True, ensure_ascii=False)\<close>,
    \<open>py_repr\<close> for \<open>str(v)\<close> of a float, list or dictionary, \<open>py_hash\<close> for \<open>hash\<close>;
  \<^item> the four renderers of \<open>captcha_generator.py\<close>, each of which may raise;
  \<^item> \<open>remote_configured\<close>, whether both \<open>GEMINI_API_ENDPOINT\<close> and \<open>GEMINI_API_KEY\<close>
    are set, and \<open>remote_reply n\<close>, the JSON value parsed from the answer to the \<open>n\<close>-th
    call of \<open>_post_prompt\<close> (\<open>None\<close> when the call or the parsing raised);
  \<^item> \<open>rand_id n\<close>, the \<open>n\<close>-th \<open>uuid.uuid4().hex[:12]\<close>, and \<open>rand_draws n\<close>, what the
    \<open>n\<close>-th \<open>random.Random\<close> of the local generator yields.
\<close>

record env =
  HMAC_SECRET :: string
  hmac_sha256_hex :: "string \<Rightarrow> string \<Rightarrow> string"
  clock :: "nat \<Rightarrow> real"
  json_dumps :: "json \<Rightarrow> string"
  py_repr :: "json \<Rightarrow> string"
  py_hash :: "json \<Rightarrow> exn + int"
  create_image_from_description :: "json \<Rightarrow> int \<Rightarrow> exn + string"
  create_audio_from_text :: "json \<Rightarrow> exn + string"
  create_color_image :: "json list \<Rightarrow> int \<Rightarrow> exn + string"
  prepare_pattern_ui :: "json \<Rightarrow> int \<Rightarrow> exn + json"
  remote_configured :: bool
  remote_reply :: "nat \<Rightarrow> json option"
  rand_id :: "nat \<Rightarrow> string"
  rand_draws :: "nat \<Rightarrow> draws"

text \<open>\<open>str(v)\<close>.\<close>

definition py_str :: "env \<Rightarrow> json \<Rightarrow> string" where
  "py_str E v =
     (case v of
        JNull \<Rightarrow> ''None''
      | JBool b \<Rightarrow> (if b then ''True'' else ''False'')
      | JInt i \<Rightarrow> str_int i
      | JStr s \<Rightarrow> s
      | _ \<Rightarrow> py_repr E v)"

section \<open>sessions.py\<close>

text \<open>
  The value of a session's \<open>captcha\<close> key once a challenge has been issued, and the
  session dictionary itself. Both are only ever built with these keys.
\<close>

record captcha_entry =
  challenge :: json
  signature :: string
  captcha_created :: real

record session =
  created :: real
  captcha :: "captcha_entry option"
  attempts :: int
  last_attempt :: real
  generation_count :: int

text \<open>
  The state of the process: the \<open>session_store\<close> object (\<open>sessions\<close>, \<open>last_cleanup\<close>)
  and how far each outside source has been consumed. \<open>judged\<close> is a ghost counter of
  the entries into \<open>verify_with_ai\<close>; no program variable corresponds to it.
\<close>

record world =
  sessions :: "string \<rightharpoonup> session"
  last_cleanup :: real
  ticks :: nat
  posts :: nat
  ids :: nat
  rolls :: nat
  judged :: nat

text \<open>\<open>time.time()\<close>.\<close>

definition time_time :: "env \<Rightarrow> world \<Rightarrow> real \<times> world" where
  "time_time E w = (clock E (ticks w), w\<lparr>ticks := Suc (ticks w)\<rparr>)"

text \<open>\<open>_rand_id()\<close> and \<open>uuid.uuid4().hex[:12]\<close>.\<close>

definition rand_id_next :: "env \<Rightarrow> world \<Rightarrow> string \<times> world" where
  "rand_id_next E w = (rand_id E (ids w), w\<lparr>ids := Suc (ids w)\<rparr>)"

text \<open>One key of the dictionary passed to \<open>update\<close>.\<close>

datatype field =
    Captcha "captcha_entry option"
  | Attempts int
  | Last_attempt real
  | Generation_count int

fun set_field :: "field \<Rightarrow> session \<Rightarrow> session" where
  "set_field (Captcha c) s = s\<lparr>captcha := c\<rparr>"
| "set_field (Attempts n) s = s\<lparr>attempts := n\<rparr>"
| "set_field (Last_attempt t) s = s\<lparr>last_attempt := t\<rparr>"
| "set_field (Generation_count n) s = s\<lparr>generation_count := n\<rparr>"

definition SESSION_TTL :: real where
  "SESSION_TTL = 3600"

definition expired :: "real \<Rightarrow> session \<Rightarrow> bool" where
  "expired now s = (now - created s > SESSION_TTL)"

definition InMemorySession_cleanup :: "env \<Rightarrow> world \<Rightarrow> world" where
  "InMemorySession_cleanup E w =
     (let (now, w1) = time_time E w
      in if now - last_cleanup w1 > 300
         then w1\<lparr>sessions := (\<lambda>k. case sessions w1 k of
                                       None \<Rightarrow> None
                                     | Some v \<Rightarrow> if expired now v then None else Some v),
                 last_cleanup := now\<rparr>
         else w1)"

definition InMemorySession_create :: "env \<Rightarrow> world \<Rightarrow> string \<times> world" where
  "InMemorySession_create E w =
     (let (sid, w1) = rand_id_next E w;
          (now, w2) = time_time E w1;
          s = \<lparr>created = now, captcha = None, attempts = 0, last_attempt = 0,
               generation_count = 0\<rparr>;
          w3 = w2\<lparr>sessions := (sessions w2)(sid \<mapsto> s)\<rparr>
      in (sid, InMemorySession_cleanup E w3))"

definition InMemorySession_get :: "env \<Rightarrow> world \<Rightarrow> string \<Rightarrow> session option \<times> world" where
  "InMemorySession_get E w sid =
     (case sessions w sid of
        None \<Rightarrow> (None, w)
      | Some s \<Rightarrow>
          (let (now, w1) = time_time E w
           in if expired now s
              then (None, w1\<lparr>sessions := (sessions w1)(sid := None)\<rparr>)
              else (Some s, w1)))"

definition InMemorySession_update :: "env \<Rightarrow> world \<Rightarrow> string \<Rightarrow> field list \<Rightarrow> world" where
  "InMemorySession_update E w sid data =
     (case sessions w sid of
        None \<Rightarrow> w
      | Some s \<Rightarrow>
          InMemorySession_cleanup E (w\<lparr>sessions := (sessions w)(sid \<mapsto> fold set_field data s)\<rparr>))"

section \<open>security.py\<close>

definition WINDOW_SECONDS :: real where
  "WINDOW_SECONDS = 300"

definition window_of :: "real \<Rightarrow> int" where
  "window_of t = \<lfloor>t / WINDOW_SECONDS\<rfloor>"

definition signed_message :: "string \<Rightarrow> string \<Rightarrow> int \<Rightarrow> string" where
  "signed_message session_id payload_str ts =
     session_id @ ''|'' @ payload_str @ ''|'' @ str_int ts"

definition sign_payload :: "env \<Rightarrow> world \<Rightarrow> string \<Rightarrow> string \<Rightarrow> string \<times> world" where
  "sign_payload E w session_id payload_str =
     (let (now, w1) = time_time E w;
          msg = signed_message session_id payload_str (window_of now)
      in (hmac_sha256_hex E (HMAC_SECRET E) msg, w1))"

definition verify_signature ::
  "env \<Rightarrow> world \<Rightarrow> string \<Rightarrow> string \<Rightarrow> string \<Rightarrow> bool \<times> world" where
  "verify_signature E w session_id payload_str sig =
     (let (now, w1) = time_time E w;
          ts_now = window_of now;
          expected = (\<lambda>offset. hmac_sha256_hex E (HMAC_SECRET E)
                                 (signed_message session_id payload_str (ts_now + offset)))
      in (if expected 0 = sig then True
          else if expected (- 1) = sig then True
          else False, w1))"

section \<open>\<^verbatim>\<open>gemini_client.py\<close>\<close>

definition quoted :: "string \<Rightarrow> string" where
  "quoted s = [CHR 0x27] @ s @ [CHR 0x27]"

fun join_with :: "string \<Rightarrow> string list \<Rightarrow> string" where
  "join_with sep [] = []"
| "join_with sep [x] = x"
| "join_with sep (x # y # ys) = x @ sep @ join_with sep (y # ys)"

subsection \<open>The local generator\<close>

definition hex_char :: "nat \<Rightarrow> char" where
  "hex_char n = ''0123456789abcdef'' ! (n mod 16)"

fun hex_nat :: "nat \<Rightarrow> string" where
  "hex_nat n = (if n < 16 then [hex_char n] else hex_nat (n div 16) @ [hex_char n])"

declare hex_nat.simps [simp del]

text \<open>\<open>"{:02x}".format(i)\<close>.\<close>

definition hex2 :: "int \<Rightarrow> string" where
  "hex2 i =
     (if i < 0 then CHR ''-'' # hex_nat (nat (- i))
      else (let h = hex_nat (nat i) in if length h < 2 then CHR ''0'' # h else h))"

definition common_colors :: "(string \<times> int \<times> int \<times> int) list" where
  "common_colors =
     [(''red'', 255, 0, 0), (''green'', 0, 255, 0), (''blue'', 0, 0, 255),
      (''yellow'', 255, 255, 0), (''orange'', 255, 165, 0), (''purple'', 128, 0, 128),
      (''pink'', 255, 192, 203), (''black'', 0, 0, 0), (''white'', 255, 255, 255),
      (''gray'', 128, 128, 128), (''brown'', 165, 42, 42), (''cyan'', 0, 255, 255)]"

text \<open>
  The squared distance of two colours. The source compares the distances themselves;
  a square root keeps the order, so the squares are compared here.
\<close>

definition dist2 :: "int \<times> int \<times> int \<Rightarrow> int \<times> int \<times> int \<Rightarrow> int" where
  "dist2 c rgb =
     (case (c, rgb) of
        ((a1, a2, a3), (b1, b2, b3)) \<Rightarrow> (a1 - b1)\<^sup>2 + (a2 - b2)\<^sup>2 + (a3 - b3)\<^sup>2)"

fun nearest_loop ::
  "(string \<times> int \<times> int \<times> int) list \<Rightarrow> int \<times> int \<times> int \<Rightarrow> (string \<times> int) option
     \<Rightarrow> (string \<times> int) option" where
  "nearest_loop [] rgb best = best"
| "nearest_loop ((name, c) # rest) rgb best =
     (let d = dist2 c rgb
      in nearest_loop rest rgb
           (case best of
              None \<Rightarrow> Some (name, d)
            | Some (b, bestd) \<Rightarrow> if d < bestd then Some (name, d) else Some (b, bestd)))"

definition nearest_color_name :: "int \<times> int \<times> int \<Rightarrow> string" where
  "nearest_color_name rgb =
     (case nearest_loop common_colors rgb None of
        Some (best, bestd) \<Rightarrow>
          if bestd < 150 * 150 then best
          else (case rgb of (r, g, b) \<Rightarrow> ''#'' @ hex2 r @ hex2 g @ hex2 b)
      | None \<Rightarrow> (case rgb of (r, g, b) \<Rightarrow> ''#'' @ hex2 r @ hex2 g @ hex2 b))"

text \<open>
  The branches of \<open>_local_generate_random_challenge\<close>: the type, the instructions, the
  \<open>ui_data\<close> and the \<open>solution\<close> built from what was drawn.
\<close>

fun local_fields :: "draws \<Rightarrow> string \<times> string \<times> json \<times> json" where
  "local_fields (DrawText word) =
     (''text'', ''Type the word shown (case-insensitive).'',
      JDict [(''question'', JStr (''Type the word '' @ quoted word)),
             (''hint'', JStr ''case-insensitive'')],
      JDict [(''value'', JStr word)])"
| "local_fields (DrawMath a b op) =
     (let val = (if op = ''+'' then a + b else if op = ''-'' then a - b else a * b)
      in (''math'', ''Solve the arithmetic expression and type the result.'',
          JDict [(''question'',
                  JStr (''What is '' @ str_int a @ '' '' @ op @ '' '' @ str_int b @ '' ?''))],
          JDict [(''value'', JStr (str_int val))]))"
| "local_fields (DrawPattern shapes seq) =
     (''pattern'', ''Click the shapes in the required order.'',
      JDict [(''shapes'', JList (map JStr shapes))],
      JDict [(''sequence'', JList (map JInt seq))])"
| "local_fields (DrawImagePoint word x y tol) =
     (let desc = ''Render a noisy background with the word '' @ quoted word
                 @ '' prominently. Also include a small subtle ring near coordinates approx ''
                 @ str_int x @ '','' @ str_int y @ '' (for a click-point target).''
      in (''image'', ''Click the indicated target in the image.'',
          JDict [(''description'', JStr desc),
                 (''hint'', JStr ''Click the small ring or target in the image.'')],
          JDict [(''x'', JInt x), (''y'', JInt y), (''tolerance'', JInt tol)]))"
| "local_fields (DrawImageWord word) =
     (let desc = ''Render a noisy image containing the word '' @ quoted word
                 @ '' with rotated letters and background random shapes.''
      in (''image'', ''Type the word shown in the image (case-insensitive).'',
          JDict [(''description'', JStr desc), (''hint'', JStr ''Type the word you can read'')],
          JDict [(''value'', JStr word)]))"
| "local_fields (DrawAudioWord word) =
     (''audio'', ''Listen to the audio and type what you hear.'',
      JDict [(''text'', JStr (''Please type the word '' @ word)),
             (''hint'', JStr ''case-insensitive'')],
      JDict [(''value'', JStr word)])"
| "local_fields (DrawAudioDigits nums) =
     (let seq = join_with '' '' (map str_int nums)
      in (''audio'', ''Listen and type the numbers spoken.'',
          JDict [(''text'', JStr (''Type the numbers: '' @ seq)),
                 (''hint'', JStr ''digits separated by space'')],
          JDict [(''value'', JStr seq)]))"
| "local_fields (DrawColor color) =
     (case color of (r, g, b) \<Rightarrow>
        (''color'', ''Type the name (or hex) of the color shown.'',
         JDict [(''color_rgb'', JList [JInt r, JInt g, JInt b]),
                (''hint'', JStr ''Common names or hex are accepted (case-insensitive).'')],
         JDict [(''value'', JStr (nearest_color_name color))]))"

definition local_generate_random_challenge ::
  "env \<Rightarrow> world \<Rightarrow> string \<Rightarrow> json \<Rightarrow> json \<times> world" where
  "local_generate_random_challenge E w session_id seed =
     (let d = rand_draws E (rolls w);
          w1 = w\<lparr>rolls := Suc (rolls w)\<rparr>;
          (cid, w2) = rand_id_next E w1
      in case local_fields d of
           (ctype, instructions, ui_data, solution) \<Rightarrow>
             (JDict [(''captcha_id'', JStr cid),
                     (''captcha_type'', JStr ctype),
                     (''instructions'', JStr instructions),
                     (''ui_data'', ui_data),
                     (''solution'', solution),
                     (''metadata'', JDict [(''generated_by'', JStr ''local_fallback''),
                                           (''seed'', seed)])],
              w2))"

subsection \<open>The remote oracle\<close>

text \<open>
  \<open>_post_prompt\<close> followed by the parsing of its answer: the next reply of the remote
  service, \<open>None\<close> when one of the two raised.
\<close>

definition post_prompt :: "env \<Rightarrow> world \<Rightarrow> json option \<times> world" where
  "post_prompt E w = (remote_reply E (posts w), w\<lparr>posts := Suc (posts w)\<rparr>)"

text \<open>\<open>d[k] = v\<close>: only a dictionary takes a string key.\<close>

definition py_setitem :: "json \<Rightarrow> string \<Rightarrow> json \<Rightarrow> exn + json" where
  "py_setitem d k v =
     (case d of
        JDict kvs \<Rightarrow> Inr (JDict (AList.update k v kvs))
      | _ \<Rightarrow> Inl (Exn ''TypeError'' ''object does not support item assignment''))"

text \<open>
  The minimal validation of a remote challenge: a missing \<open>captcha_id\<close> is drawn, a
  missing \<open>captcha_type\<close> is \<open>text\<close>. The fresh identifier is drawn before the
  assignment that may raise.
\<close>

definition fill_missing :: "env \<Rightarrow> world \<Rightarrow> json \<Rightarrow> (exn + json) \<times> world" where
  "fill_missing E w data =
     (case py_contains ''captcha_id'' data of
        Inl e \<Rightarrow> (Inl e, w)
      | Inr has_id \<Rightarrow>
          (let (step1, w1) =
                 (if has_id then (Inr data, w)
                  else (let (cid, w') = rand_id_next E w
                        in (py_setitem data ''captcha_id'' (JStr cid), w')))
           in case step1 of
                Inl e \<Rightarrow> (Inl e, w1)
              | Inr data1 \<Rightarrow>
                  (case py_contains ''captcha_type'' data1 of
                     Inl e \<Rightarrow> (Inl e, w1)
                   | Inr has_type \<Rightarrow>
                       (if has_type then (Inr data1, w1)
                        else (py_setitem data1 ''captcha_type'' (JStr ''text''), w1)))))"

definition decide_and_create_challenge :: "env \<Rightarrow> world \<Rightarrow> string \<Rightarrow> json \<times> world" where
  "decide_and_create_challenge E w session_id =
     (if remote_configured E
      then (let (reply, w1) = post_prompt E w
            in case reply of
                 None \<Rightarrow> local_generate_random_challenge E w1 session_id JNull
               | Some data \<Rightarrow>
                   (case fill_missing E w1 data of
                      (Inr data', w2) \<Rightarrow> (data', w2)
                    | (Inl e, w2) \<Rightarrow> local_generate_random_challenge E w2 session_id JNull))
      else local_generate_random_challenge E w session_id JNull)"

subsection \<open>Judging an answer\<close>

text \<open>
  The remote verdict: the reply must be a dictionary, or \<open>get\<close> raises and the local
  heuristics take over as for any other remote failure.
\<close>

definition remote_verdict :: "json \<Rightarrow> exn + json" where
  "remote_verdict data =
     bind_exn (py_get data ''correct'' (JBool False)) (\<lambda>c.
     bind_exn (py_get data ''explanation'' (JStr [])) (\<lambda>ex.
     bind_exn (py_get data ''normalized_answer'' JNull) (\<lambda>n.
       Inr (JDict [(''ok'', JBool True), (''correct'', JBool (truthy c)),
                   (''explanation'', ex), (''normalized'', n)]))))"

text \<open>
  The case-insensitive comparison against \<open>solution.value\<close>, which the source repeats
  for text, math and audio, for word images and for colours, each with its own tag.
\<close>

definition compare_value :: "env \<Rightarrow> string \<Rightarrow> json \<Rightarrow> json \<Rightarrow> exn + json" where
  "compare_value E tag sol user_answer =
     bind_exn (py_get sol ''value'' (JStr [])) (\<lambda>v.
       let expected = lower (strip (py_str E v));
           provided = lower (strip (py_str E user_answer))
       in Inr (JDict [(''ok'', JBool True), (''correct'', JBool (expected = provided)),
                      (''explanation'', JStr tag), (''normalized_answer'', JStr provided)]))"

fun map_exn :: "('a \<Rightarrow> exn + 'b) \<Rightarrow> 'a list \<Rightarrow> exn + 'b list" where
  "map_exn f [] = Inr []"
| "map_exn f (x # xs) =
     bind_exn (f x) (\<lambda>y. bind_exn (map_exn f xs) (\<lambda>ys. Inr (y # ys)))"

text \<open>What the pattern branch makes of the answer before comparing it.\<close>

definition pattern_user_seq :: "json \<Rightarrow> exn + json" where
  "pattern_user_seq user_answer =
     (case user_answer of
        JStr s \<Rightarrow>
          if str_in '','' s
          then bind_exn (map_exn (\<lambda>x. int_of_str (strip x))
                           (filter (\<lambda>x. isdigit (strip x)) (split_on CHR '','' s)))
                 (\<lambda>arr. Inr (JList (map JInt arr)))
          else Inr (JStr s)
      | JList xs \<Rightarrow> Inr (JList xs)
      | _ \<Rightarrow> Inr (JList []))"

definition verify_pattern :: "json \<Rightarrow> json \<Rightarrow> exn + json" where
  "verify_pattern sol user_answer =
     bind_exn (py_get sol ''sequence'' JNull) (\<lambda>s.
     bind_exn (if truthy s then Inr s else py_get sol ''value'' JNull) (\<lambda>expected_seq.
     bind_exn (pattern_user_seq user_answer) (\<lambda>user_seq.
       Inr (JDict [(''ok'', JBool True), (''correct'', JBool (py_eq user_seq expected_seq)),
                   (''explanation'', JStr ''fallback-sequence-compare''),
                   (''normalized_answer'', user_seq)]))))"

text \<open>
  \<open>math.hypot\<close> of two integers is the Euclidean norm, taken as the exact real number:
  the rounding and the overflow of floating-point arithmetic are outside the model.
\<close>

definition hypot :: "int \<Rightarrow> int \<Rightarrow> real" where
  "hypot dx dy = sqrt (real_of_int (dx * dx + dy * dy))"

text \<open>The coordinates read from the answer; \<open>None\<close> is the bad-input return.\<close>

definition answer_point :: "json \<Rightarrow> exn + (int \<times> int) option" where
  "answer_point user_answer =
     (case user_answer of
        JDict d \<Rightarrow>
          bind_exn (py_get user_answer ''x'' (JInt (- 9999))) (\<lambda>vx.
          bind_exn (py_int vx) (\<lambda>ux.
          bind_exn (py_get user_answer ''y'' (JInt (- 9999))) (\<lambda>vy.
          bind_exn (py_int vy) (\<lambda>uy. Inr (Some (ux, uy))))))
      | JList xs \<Rightarrow>
          if length xs \<ge> 2
          then bind_exn (py_int (xs ! 0)) (\<lambda>ux.
               bind_exn (py_int (xs ! 1)) (\<lambda>uy. Inr (Some (ux, uy))))
          else Inr None
      | _ \<Rightarrow> Inr None)"

definition verify_point :: "json \<Rightarrow> json \<Rightarrow> exn + json" where
  "verify_point sol user_answer =
     bind_exn (py_get sol ''x'' JNull) (\<lambda>vx.
     bind_exn (py_int vx) (\<lambda>tx.
     bind_exn (py_get sol ''y'' JNull) (\<lambda>vy.
     bind_exn (py_int vy) (\<lambda>ty.
     bind_exn (py_get sol ''tolerance'' (JInt 18)) (\<lambda>vt.
     bind_exn (py_int vt) (\<lambda>tol.
     bind_exn (answer_point user_answer) (\<lambda>p.
       case p of
         None \<Rightarrow>
           Inr (JDict [(''ok'', JBool True), (''correct'', JBool False),
                       (''explanation'', JStr ''fallback-bad-input-for-image'')])
       | Some (ux, uy) \<Rightarrow>
           (let dist = hypot (ux - tx) (uy - ty)
            in Inr (JDict [(''ok'', JBool True),
                           (''correct'', JBool (dist \<le> real_of_int tol)),
                           (''explanation'', JStr ''fallback-point''),
                           (''normalized_answer'',
                            JDict [(''distance'', JFloat dist)])])))))))))"

definition verify_image :: "env \<Rightarrow> json \<Rightarrow> json \<Rightarrow> exn + json" where
  "verify_image E sol user_answer =
     bind_exn (py_contains ''x'' sol) (\<lambda>has_x.
     bind_exn (if has_x then py_contains ''y'' sol else Inr False) (\<lambda>has_y.
       if has_x \<and> has_y
       then try_except (verify_point sol user_answer)
              (\<lambda>ex. Inr (JDict [(''ok'', JBool False), (''correct'', JBool False),
                                 (''explanation'', JStr ''fallback-exception-image''),
                                 (''error'', JStr (str_exn ex))]))
       else compare_value E ''fallback-image-word-compare'' sol user_answer))"

text \<open>The body of the \<open>try\<close> of the local heuristics.\<close>

definition local_verify :: "env \<Rightarrow> json \<Rightarrow> json \<Rightarrow> exn + json" where
  "local_verify E stored_challenge user_answer =
     bind_exn (py_get stored_challenge ''captcha_type'' JNull) (\<lambda>ctype.
     bind_exn (py_get stored_challenge ''solution'' (JDict [])) (\<lambda>sol.
       if ctype \<in> set [JStr ''text'', JStr ''math'', JStr ''audio'']
       then compare_value E ''fallback-exact-compare'' sol user_answer
       else if ctype = JStr ''pattern'' then verify_pattern sol user_answer
       else if ctype = JStr ''image'' then verify_image E sol user_answer
       else if ctype = JStr ''color''
       then compare_value E ''fallback-color-compare'' sol user_answer
       else Inr (JDict [(''ok'', JBool False), (''correct'', JBool False),
                        (''explanation'', JStr ''unsupported-type-fallback'')])))"

text \<open>The remote attempt of \<open>verify_with_ai\<close>: its verdict, if it gave one.\<close>

definition remote_verify :: "env \<Rightarrow> world \<Rightarrow> json option \<times> world" where
  "remote_verify E w =
     (if remote_configured E
      then (let (reply, w') = post_prompt E w
            in case reply of
                 None \<Rightarrow> (None, w')
               | Some data \<Rightarrow>
                   (case remote_verdict data of
                      Inr r \<Rightarrow> (Some r, w')
                    | Inl e \<Rightarrow> (None, w')))
      else (None, w))"

definition verify_with_ai :: "env \<Rightarrow> world \<Rightarrow> json \<Rightarrow> json \<Rightarrow> (exn + json) \<times> world" where
  "verify_with_ai E w stored_challenge user_answer =
     (let (remote, w1) = remote_verify E (w\<lparr>judged := Suc (judged w)\<rparr>)
      in case remote of
           Some r \<Rightarrow> (Inr r, w1)
         | None \<Rightarrow>
             (try_except (local_verify E stored_challenge user_answer)
                (\<lambda>ex. Inr (JDict [(''ok'', JBool False), (''correct'', JBool False),
                                   (''explanation'', JStr ''fallback-exception''),
                                   (''error'', JStr (str_exn ex))])),
              w1))"

section \<open>agents.py\<close>

subsection \<open>GeneratorAgent\<close>

text \<open>
  \<open>dict(v)\<close> copies a dictionary and rejects what is not one. (A non-empty list of
  two-element items, which \<open>dict\<close> would also accept, is not modelled apart; no result
  below is about such a \<open>ui_data\<close>.)
\<close>

definition py_dict :: "json \<Rightarrow> exn + json" where
  "py_dict v =
     (case v of
        JDict d \<Rightarrow> Inr (JDict d)
      | _ \<Rightarrow> Inl (Exn ''TypeError'' ''cannot convert dictionary update sequence''))"

definition trunc_real :: "real \<Rightarrow> int" where
  "trunc_real r = (if 0 \<le> r then \<lfloor>r\<rfloor> else \<lceil>r\<rceil>)"

text \<open>The body of the \<open>try\<close>: the rendered \<open>ui_data\<close>, or the exception raised.\<close>

definition render :: "env \<Rightarrow> json \<Rightarrow> json \<Rightarrow> json \<Rightarrow> json \<Rightarrow> exn + json" where
  "render E chal ctype ui_data rendered_ui =
     (if ctype = JStr ''image''
      then bind_exn (py_get ui_data ''description'' (JStr [])) (\<lambda>desc.
           bind_exn (py_get chal ''captcha_id'' JNull) (\<lambda>cid.
           bind_exn (py_hash E cid) (\<lambda>seed.
           bind_exn (create_image_from_description E desc seed) (\<lambda>img.
             py_setitem rendered_ui ''image_base64'' (JStr img)))))
      else if ctype = JStr ''audio''
      then bind_exn (py_get ui_data ''text'' (JStr [])) (\<lambda>text.
           bind_exn (create_audio_from_text E text) (\<lambda>audio.
             py_setitem rendered_ui ''audio_base64'' (JStr audio)))
      else if ctype = JStr ''pattern''
      then bind_exn (py_get ui_data ''shapes'' (JList [])) (\<lambda>shapes.
           bind_exn (py_get chal ''captcha_id'' JNull) (\<lambda>cid.
           bind_exn (py_hash E cid) (\<lambda>seed.
             prepare_pattern_ui E shapes seed)))
      else if ctype = JStr ''color''
      then bind_exn (py_get ui_data ''color_rgb'' JNull) (\<lambda>rgb.
             case rgb of
               JList xs \<Rightarrow>
                 if length xs = 3
                 then bind_exn (py_get chal ''captcha_id'' JNull) (\<lambda>cid.
                      bind_exn (py_hash E cid) (\<lambda>seed.
                      bind_exn (create_color_image E xs seed) (\<lambda>img.
                        py_setitem rendered_ui ''image_base64'' (JStr img))))
                 else Inl (Exn ''Exception'' ''Invalid color_rgb'')
             | _ \<Rightarrow> Inl (Exn ''Exception'' ''Invalid color_rgb''))
      else if ctype \<in> set [JStr ''text'', JStr ''math'']
      then Inr rendered_ui
      else Inl (Exn ''Exception'' (''Unsupported captcha_type '' @ quoted (py_str E ctype))))"

text \<open>
  The \<open>except\<close> branch: the synthetic text challenge. It reads the clock twice, once
  for the word and once for the default of \<open>challenge.get("captcha_id", ...)\<close>, which
  Python evaluates whether or not the key is there.
\<close>

definition fallback_challenge :: "env \<Rightarrow> world \<Rightarrow> json \<Rightarrow> exn \<Rightarrow> (exn + json) \<times> world" where
  "fallback_challenge E w chal e =
     (let (t1, w1) = time_time E w;
          fallback_word = ''solara'' @ str_int (trunc_real t1 mod 10000);
          (t2, w2) = time_time E w1
      in (bind_exn (py_get chal ''captcha_id''
                      (JStr (''fallback-'' @ str_int (trunc_real t2)))) (\<lambda>cid.
            Inr (JDict
              [(''captcha_id'', cid),
               (''captcha_type'', JStr ''text''),
               (''instructions'', JStr (''Type the word '' @ quoted fallback_word)),
               (''ui_data'', JDict [(''question'',
                                     JStr (''Type the word '' @ quoted fallback_word))]),
               (''solution'', JDict [(''value'', JStr fallback_word)]),
               (''metadata'', JDict [(''fallback'', JBool True),
                                     (''render_error'', JStr (str_exn e))])])),
          w2))"

text \<open>
  Steps 2 and 3 of \<open>GeneratorAgent.run\<close>: sign and store the challenge with its rendered
  \<open>ui_data\<close>, and return the view for the client.
\<close>

definition store_and_view ::
  "env \<Rightarrow> world \<Rightarrow> string \<Rightarrow> session \<Rightarrow> json \<Rightarrow> json \<Rightarrow> (exn + json) \<times> world" where
  "store_and_view E w session_id session chal rendered_ui =
     (case py_setitem chal ''ui_data'' rendered_ui of
        Inl e \<Rightarrow> (Inl e, w)
      | Inr challenge_to_store \<Rightarrow>
          (let challenge_repr = json_dumps E challenge_to_store;
               (sig, w1) = sign_payload E w session_id challenge_repr;
               (now, w2) = time_time E w1;
               w3 = InMemorySession_update E w2 session_id
                      [Captcha (Some \<lparr>challenge = challenge_to_store, signature = sig,
                                      captcha_created = now\<rparr>),
                       Attempts 0,
                       Last_attempt 0,
                       Generation_count (generation_count session + 1)]
           in (bind_exn (py_get challenge_to_store ''captcha_id'' JNull) (\<lambda>cid.
               bind_exn (py_get challenge_to_store ''captcha_type'' JNull) (\<lambda>ctype.
               bind_exn (py_get challenge_to_store ''instructions'' JNull) (\<lambda>ins.
               bind_exn (py_get challenge_to_store ''ui_data'' JNull) (\<lambda>ui.
                 Inr (JDict [(''captcha_id'', cid), (''captcha_type'', ctype),
                             (''instructions'', ins), (''ui_data'', ui),
                             (''signature'', JStr sig)]))))),
               w3)))"

text \<open>
  What \<open>GeneratorAgent.run\<close> reads from the challenge before the \<open>try\<close>: the type,
  the \<open>ui_data\<close> and its copy. An exception here is not caught.
\<close>

definition challenge_parts :: "json \<Rightarrow> exn + (json \<times> json \<times> json)" where
  "challenge_parts chal =
     bind_exn (py_get chal ''captcha_type'' JNull) (\<lambda>ctype.
     bind_exn (py_get chal ''ui_data'' (JDict [])) (\<lambda>u.
       let ui_data = py_or u (JDict [])
       in bind_exn (py_dict ui_data) (\<lambda>rendered_ui. Inr (ctype, ui_data, rendered_ui))))"

definition GeneratorAgent_run :: "env \<Rightarrow> world \<Rightarrow> string \<Rightarrow> (exn + json) \<times> world" where
  "GeneratorAgent_run E w session_id =
     (case InMemorySession_get E w session_id of
        (None, w1) \<Rightarrow> (Inr (JDict [(''error'', JStr ''invalid-session'')]), w1)
      | (Some session, w1) \<Rightarrow>
          (let (chal, w2) = decide_and_create_challenge E w1 session_id
           in case challenge_parts chal of
                Inl e \<Rightarrow> (Inl e, w2)
              | Inr (ctype, ui_data, rendered_ui) \<Rightarrow>
                  (case render E chal ctype ui_data rendered_ui of
                     Inr rendered \<Rightarrow> store_and_view E w2 session_id session chal rendered
                   | Inl e \<Rightarrow>
                       (case fallback_challenge E w2 chal e of
                          (Inl e', w3) \<Rightarrow> (Inl e', w3)
                        | (Inr fb, w3) \<Rightarrow>
                            (case py_get fb ''ui_data'' JNull of
                               Inl e' \<Rightarrow> (Inl e', w3)
                             | Inr fb_ui \<Rightarrow>
                                 store_and_view E w3 session_id session fb fb_ui)))))"

subsection \<open>ValidatorAgent\<close>

definition no_active_captcha :: json where
  "no_active_captcha = JDict [(''success'', JBool False), (''error'', JStr ''No active captcha'')]"

definition signature_failed :: json where
  "signature_failed =
     JDict [(''success'', JBool False),
            (''error'', JStr ''Stored challenge failed signature verification'')]"

definition rate_limited :: json where
  "rate_limited =
     JDict [(''success'', JBool False), (''error'', JStr ''Too many attempts. Try again later.'')]"

text \<open>
  Step 4 of \<open>ValidatorAgent.run\<close>: what is read from a verdict whose \<open>ok\<close> is true.
\<close>

definition read_verdict :: "json \<Rightarrow> exn + (bool \<times> json \<times> json)" where
  "read_verdict verify_result =
     bind_exn (py_get verify_result ''correct'' (JBool False)) (\<lambda>c.
     bind_exn (py_get verify_result ''explanation'' (JStr [])) (\<lambda>explanation.
     bind_exn (py_get verify_result ''normalized'' JNull) (\<lambda>n1.
     bind_exn (if truthy n1 then Inr n1
               else py_get verify_result ''normalized_answer'' JNull) (\<lambda>normalized.
       Inr (truthy c, explanation, normalized)))))"

definition ValidatorAgent_run ::
  "env \<Rightarrow> world \<Rightarrow> string \<Rightarrow> json \<Rightarrow> (exn + json) \<times> world" where
  "ValidatorAgent_run E w session_id user_answer =
     (case InMemorySession_get E w session_id of
        (None, w1) \<Rightarrow> (Inr no_active_captcha, w1)
      | (Some session, w1) \<Rightarrow>
          (case captcha session of
             None \<Rightarrow> (Inr no_active_captcha, w1)
           | Some stored \<Rightarrow>
               (let challenge_repr = json_dumps E (challenge stored);
                    (valid, w2) = verify_signature E w1 session_id challenge_repr
                                    (signature stored)
                in if \<not> valid then (Inr signature_failed, w2)
                   else
                     (let (now, w3) = time_time E w2;
                          n = attempts session;
                          last = last_attempt session
                      in if n \<ge> 6 \<and> now - last < 60 then (Inr rate_limited, w3)
                         else
                           (case verify_with_ai E w3 (challenge stored) user_answer of
                              (Inl e, w4) \<Rightarrow> (Inl e, w4)
                            | (Inr verify_result, w4) \<Rightarrow>
                                (let w5 = InMemorySession_update E w4 session_id
                                            [Attempts (n + 1), Last_attempt now]
                                 in case py_get verify_result ''ok'' JNull of
                                      Inl e \<Rightarrow> (Inl e, w5)
                                    | Inr ok \<Rightarrow>
                                        if \<not> truthy ok
                                        then (bind_exn
                                                (py_get verify_result ''explanation'' JNull)
                                                (\<lambda>meta. Inr (JDict
                                                   [(''success'', JBool False),
                                                    (''error'', JStr ''verification_unavailable''),
                                                    (''meta'', meta)])), w5)
                                        else
                                          (case read_verdict verify_result of
                                             Inl e \<Rightarrow> (Inl e, w5)
                                           | Inr (correct, explanation, normalized) \<Rightarrow>
                                               if correct
                                               then (Inr (JDict
                                                       [(''success'', JBool True),
                                                        (''message'', JStr ''Captcha correct''),
                                                        (''explanation'', explanation),
                                                        (''normalized'', normalized)]),
                                                     InMemorySession_update E w5 session_id
                                                       [Captcha None, Attempts 0])
                                               else (Inr (JDict
                                                       [(''success'', JBool False),
                                                        (''message'', JStr ''Incorrect captcha''),
                                                        (''explanation'', explanation),
                                                        (''normalized'', normalized)]),
                                                     w5))))))))"

section \<open>Stand-ins for concrete runs\<close>

text \<open>
  To run the model on concrete inputs the outside world must be fixed. The stand-in
  environment takes the clock, the remote oracle and the random draws as arguments; its
  message authentication code is the key followed by the message, which tells any two
  messages apart as HMAC-SHA256 is relied upon to do; its audio renderer fails the way
  the text-to-speech service does when it cannot be reached.
\<close>

definition sample_env ::
  "(nat \<Rightarrow> real) \<Rightarrow> bool \<Rightarrow> (nat \<Rightarrow> json option) \<Rightarrow> (nat \<Rightarrow> draws) \<Rightarrow> env" where
  "sample_env clk configured replies drawn =
     \<lparr>HMAC_SECRET = ''key'',
      hmac_sha256_hex = (\<lambda>key msg. key @ ''/'' @ msg),
      clock = clk,
      json_dumps = (\<lambda>v. ''{}''),
      py_repr = (\<lambda>v. ''?''),
      py_hash = (\<lambda>v. Inr 0),
      create_image_from_description = (\<lambda>desc seed. Inr ''data:image/png;base64,AAAA''),
      create_audio_from_text = (\<lambda>text. Inl (Exn ''gTTSError'' ''Connection error'')),
      create_color_image = (\<lambda>rgb seed. Inr ''data:image/png;base64,BBBB''),
      prepare_pattern_ui = (\<lambda>shapes seed. Inr (JDict [(''shapes'', shapes)])),
      remote_configured = configured,
      remote_reply = replies,
      rand_id = (\<lambda>n. ''c0ffee'' @ str_nat n),
      rand_draws = drawn\<rparr>"

definition sample_world :: "(string \<rightharpoonup> session) \<Rightarrow> world" where
  "sample_world m =
     \<lparr>sessions = m, last_cleanup = 0, ticks = 0, posts = 0, ids = 0, rolls = 0, judged = 0\<rparr>"

definition fresh_session :: "real \<Rightarrow> session" where
  "fresh_session t =
     \<lparr>created = t, captcha = None, attempts = 0, last_attempt = 0, generation_count = 0\<rparr>"

section \<open>Properties\<close>

text \<open>A verdict carries \<open>ok\<close> and \<open>correct\<close>, both booleans.\<close>

definition is_verdict :: "json \<Rightarrow> bool" where
  "is_verdict r =
     (case (py_get r ''ok'' JNull, py_get r ''correct'' JNull) of
        (Inr (JBool ok), Inr (JBool c)) \<Rightarrow> True
      | _ \<Rightarrow> False)"

text \<open>The indices a comma-separated answer to a pattern challenge is read as.\<close>

definition indices :: "string \<Rightarrow> int list" where
  "indices s =
     map (\<lambda>x. digits_val (strip x)) (filter (\<lambda>x. isdigit (strip x)) (split_on CHR '','' s))"

text \<open>
  The word and the identifier of the synthetic challenge built in world \<open>w\<close>: the word
  comes from the next reading of the clock, the default identifier from the one after.
\<close>

definition fallback_word :: "env \<Rightarrow> world \<Rightarrow> string" where
  "fallback_word E w = ''solara'' @ str_int (trunc_real (clock E (ticks w)) mod 10000)"

definition fallback_id :: "env \<Rightarrow> world \<Rightarrow> json \<Rightarrow> json" where
  "fallback_id E w chal =
     (case py_get chal ''captcha_id''
             (JStr (''fallback-'' @ str_int (trunc_real (clock E (Suc (ticks w)))))) of
        Inr v \<Rightarrow> v
      | Inl e \<Rightarrow> JNull)"

text \<open>Every string inside a value, and whether a text can be read in one of them.\<close>

fun json_strings :: "json \<Rightarrow> string list" where
  "json_strings (JStr s) = [s]"
| "json_strings (JList xs) = concat (map json_strings xs)"
| "json_strings (JDict d) = concat (map (\<lambda>kv. json_strings (snd kv)) d)"
| "json_strings v = []"

definition shows_text :: "string \<Rightarrow> json \<Rightarrow> bool" where
  "shows_text t v = list_ex (str_in t) (json_strings v)"

text \<open>The \<open>solution\<close> of the challenge a session holds, if it holds one.\<close>

definition stored_solution :: "world \<Rightarrow> string \<Rightarrow> json option" where
  "stored_solution w sid =
     (case sessions w sid of
        None \<Rightarrow> None
      | Some s \<Rightarrow>
          (case captcha s of
             None \<Rightarrow> None
           | Some c \<Rightarrow>
               (case py_get (challenge c) ''solution'' JNull of
                  Inr v \<Rightarrow> Some v
                | Inl e \<Rightarrow> None)))"

text \<open>\<open>d.get(k)\<close> on the items of a dictionary.\<close>

definition field_of :: "(string \<times> json) list \<Rightarrow> string \<Rightarrow> json" where
  "field_of d k = (case map_of d k of Some v \<Rightarrow> v | None \<Rightarrow> JNull)"

text \<open>
  A clock that starts at \<open>t0\<close> and advances by \<open>dt\<close> seconds from one reading to the
  next, a remote oracle and a random source that always give the same.
\<close>

definition ticking :: "real \<Rightarrow> real \<Rightarrow> nat \<Rightarrow> real" where
  "ticking t0 dt n = t0 + dt * real n"

definition always :: "'a \<Rightarrow> nat \<Rightarrow> 'a" where
  "always x n = x"

text \<open>A session holding a challenge that was signed in the window of \<open>t = 900\<close>.\<close>

definition issued_session :: "json \<Rightarrow> int \<Rightarrow> real \<Rightarrow> session" where
  "issued_session chal n t =
     \<lparr>created = 900,
      captcha = Some \<lparr>challenge = chal, signature = ''key/s1|{}|3'', captcha_created = 900\<rparr>,
      attempts = n, last_attempt = t, generation_count = 1\<rparr>"

definition local_env :: "real \<Rightarrow> env" where
  "local_env t0 = sample_env (ticking t0 1) False (always None) (always (DrawText ''sol''))"

definition word_challenge :: json where
  "word_challenge =
     JDict [(''captcha_id'', JStr ''c0ffee0''), (''captcha_type'', JStr ''text''),
            (''instructions'', JStr ''Type the word shown (case-insensitive).''),
            (''ui_data'', JDict [(''question'', JStr ''Type the word sol'')]),
            (''solution'', JDict [(''value'', JStr ''sol'')])]"

definition empty_world :: world where
  "empty_world = sample_world Map.empty"

definition one_session_world :: "session \<Rightarrow> world" where
  "one_session_world s = sample_world [''s1'' \<mapsto> s]"

text \<open>A clock whose second reading comes 301 seconds after the first.\<close>

definition late_env :: env where
  "late_env = sample_env (ticking 299 301) False (always None) (always (DrawText ''sol''))"

text \<open>
  A client that submits one answer after the other on the same session, and the verdict
  that tells it an answer was wrong.
\<close>

fun submit_all :: "env \<Rightarrow> world \<Rightarrow> string \<Rightarrow> json list \<Rightarrow> (exn + json) list \<times> world" where
  "submit_all E w sid [] = ([], w)"
| "submit_all E w sid (a # as) =
     (let (r, w1) = ValidatorAgent_run E w sid a;
          (rs, w2) = submit_all E w1 sid as
      in (r # rs, w2))"

definition judged_incorrect :: "exn + json \<Rightarrow> bool" where
  "judged_incorrect r =
     (case r of
        Inr d \<Rightarrow> py_get d ''message'' JNull = Inr (JStr ''Incorrect captcha'')
      | Inl e \<Rightarrow> False)"

text \<open>Whether a verdict says the answer was correct.\<close>

definition correct_of :: "exn + json \<Rightarrow> bool option" where
  "correct_of r =
     (case r of
        Inr d \<Rightarrow> (case py_get d ''correct'' JNull of Inr (JBool b) \<Rightarrow> Some b | _ \<Rightarrow> None)
      | Inl e \<Rightarrow> None)"

text \<open>Challenges as a session stores them, for the pattern and the click-target kinds.\<close>

definition pattern_challenge :: "int list \<Rightarrow> json" where
  "pattern_challenge seq =
     JDict [(''captcha_id'', JStr ''c0ffee0''), (''captcha_type'', JStr ''pattern''),
            (''instructions'', JStr ''Click the shapes in the required order.''),
            (''ui_data'', JDict [(''shapes'', JList [JStr ''A'', JStr ''B'', JStr ''C''])]),
            (''solution'', JDict [(''sequence'', JList (map JInt seq))])]"

definition target_challenge :: json where
  "target_challenge =
     JDict [(''captcha_id'', JStr ''c0ffee0''), (''captcha_type'', JStr ''image''),
            (''instructions'', JStr ''Click the indicated target in the image.''),
            (''ui_data'', JDict []),
            (''solution'', JDict [(''x'', JInt 100), (''y'', JInt 100),
                                  (''tolerance'', JInt 15)])]"

text \<open>The synthetic challenge of the \<open>except\<close> branch, as a value.\<close>

definition fallback_dict :: "env \<Rightarrow> world \<Rightarrow> json \<Rightarrow> exn \<Rightarrow> json" where
  "fallback_dict E w chal e =
     JDict [(''captcha_id'', fallback_id E w chal),
            (''captcha_type'', JStr ''text''),
            (''instructions'', JStr (''Type the word '' @ quoted (fallback_word E w))),
            (''ui_data'', JDict [(''question'',
                                  JStr (''Type the word '' @ quoted (fallback_word E w)))]),
            (''solution'', JDict [(''value'', JStr (fallback_word E w))]),
            (''metadata'', JDict [(''fallback'', JBool True),
                                  (''render_error'', JStr (str_exn e))])]"

text \<open>What a run returned, and the \<open>ui_data\<close> of the view it returned.\<close>

definition returned :: "exn + json \<Rightarrow> json" where
  "returned r = (case r of Inr v \<Rightarrow> v | Inl e \<Rightarrow> JNull)"

definition ui_data_of :: "exn + json \<Rightarrow> json" where
  "ui_data_of r =
     (case py_get (returned r) ''ui_data'' JNull of Inr u \<Rightarrow> u | Inl e \<Rightarrow> JNull)"

text \<open>
  A remote oracle that answers with a challenge of a type the generator does not know,
  and a local generator that draws a click-target image challenge.
\<close>

definition puzzle_env :: env where
  "puzzle_env =
     sample_env (ticking 1000 1) True
       (always (Some (JDict [(''captcha_id'', JStr ''abc''),
                             (''captcha_type'', JStr ''puzzle'')])))
       (always (DrawText ''sol''))"

definition target_env :: env where
  "target_env =
     sample_env (ticking 1000 1) False (always None)
       (always (DrawImagePoint ''sol'' 120 80 20))"

section \<open>The session store\<close>

lemma get_Some:
  assumes "InMemorySession_get E w sid = (Some s, w1)"
  shows "sessions w sid = Some s \<and> w1 = w\<lparr>ticks := Suc (ticks w)\<rparr>
         \<and> \<not> expired (clock E (ticks w)) s"
  using assms
  by (auto simp: InMemorySession_get_def time_time_def Let_def split: option.splits if_splits)

lemma cleanup_sessions:
  "sessions (InMemorySession_cleanup E w) k = None \<or>
   sessions (InMemorySession_cleanup E w) k = sessions w k"
  by (auto simp: InMemorySession_cleanup_def time_time_def Let_def split: option.splits)

lemma update_sessions:
  "sessions (InMemorySession_update E w sid data) sid = None \<or>
   (\<exists>s. sessions w sid = Some s \<and>
        sessions (InMemorySession_update E w sid data) sid = Some (fold set_field data s))"
proof (cases "sessions w sid")
  case None
  then show ?thesis by (simp add: InMemorySession_update_def)
next
  case (Some s)
  then show ?thesis
    using cleanup_sessions[of E "w\<lparr>sessions := (sessions w)(sid \<mapsto> fold set_field data s)\<rparr>" sid]
    by (auto simp: InMemorySession_update_def)
qed

lemmas run_defs =
  local_env_def late_env_def sample_env_def sample_world_def empty_world_def
  one_session_world_def issued_session_def fresh_session_def ticking_def always_def
  time_time_def InMemorySession_get_def InMemorySession_update_def
  InMemorySession_cleanup_def expired_def SESSION_TTL_def verify_signature_def
  sign_payload_def window_of_def WINDOW_SECONDS_def signed_message_def str_int_def
  str_nat.simps digit_char_def

text \<open>
  C8. A session fetched more than 3600 seconds after its creation is reported as not
  found and its entry is deleted by that very access; the answer and the table that
  remains are those of a store in which the session never was.
\<close>

theorem expired_session_as_absent:
  assumes "sessions w sid = Some s"
    and "clock E (ticks w) - created s > 3600"
  shows "fst (InMemorySession_get E w sid) = None
       \<and> sessions (snd (InMemorySession_get E w sid)) = (sessions w)(sid := None)
       \<and> last_cleanup (snd (InMemorySession_get E w sid)) = last_cleanup w
       \<and> fst (InMemorySession_get E (w\<lparr>sessions := (sessions w)(sid := None)\<rparr>) sid) = None
       \<and> sessions (snd (InMemorySession_get E (w\<lparr>sessions := (sessions w)(sid := None)\<rparr>) sid))
           = (sessions w)(sid := None)"
  using assms by (simp add: InMemorySession_get_def time_time_def expired_def SESSION_TTL_def)

theorem expired_session_as_absent_witness:
  "fst (InMemorySession_get (local_env 4000) (one_session_world (fresh_session 0)) ''s1'') = None
   \<and> sessions (snd (InMemorySession_get (local_env 4000)
                      (one_session_world (fresh_session 0)) ''s1'')) ''s1'' = None"
proof -
  have present: "sessions (one_session_world (fresh_session 0)) ''s1'' = Some (fresh_session 0)"
    by (simp add: one_session_world_def sample_world_def)
  have late: "clock (local_env 4000) (ticks (one_session_world (fresh_session 0)))
                - created (fresh_session 0) > 3600"
    by (simp add: run_defs)
  from expired_session_as_absent[OF present late] show ?thesis by simp
qed

section \<open>The signer\<close>

lemma window_step:
  assumes "t0 \<le> t1" and "t1 \<le> t0 + WINDOW_SECONDS"
  shows "window_of t1 = window_of t0 \<or> window_of t1 - 1 = window_of t0"
proof -
  have lo: "window_of t0 \<le> window_of t1"
    using assms(1) by (simp add: window_of_def WINDOW_SECONDS_def floor_mono)
  have "t1 / 300 \<le> t0 / 300 + 1"
    using assms(2) by (simp add: WINDOW_SECONDS_def)
  then have "\<lfloor>t1 / 300\<rfloor> \<le> \<lfloor>t0 / 300 + 1\<rfloor>"
    by (rule floor_mono)
  then have hi: "window_of t1 \<le> window_of t0 + 1"
    by (simp add: window_of_def WINDOW_SECONDS_def)
  from lo hi show ?thesis by linarith
qed

lemma verify_signature_world:
  "snd (verify_signature E w sid p sg) = w\<lparr>ticks := Suc (ticks w)\<rparr>"
  by (simp add: verify_signature_def time_time_def Let_def)

text \<open>
  C2, as the code has it. A signature made by \<open>sign_payload\<close> verifies at signing time
  and at any later time up to \<open>WINDOW_SECONDS\<close> (300 seconds) after it: the verifier
  accepts the window of its own clock and the one before, so a signature made at the
  very end of a window is good for 300 seconds, not for 600.
\<close>

theorem sign_verify_within_window:
  assumes "sign_payload E w s p = (sg, w1)"
    and "clock E (ticks w) \<le> clock E (ticks w')"
    and "clock E (ticks w') \<le> clock E (ticks w) + WINDOW_SECONDS"
  shows "fst (verify_signature E w' s p sg)"
proof -
  have sg: "sg = hmac_sha256_hex E (HMAC_SECRET E)
                   (signed_message s p (window_of (clock E (ticks w))))"
    using assms(1) by (simp add: sign_payload_def time_time_def Let_def)
  from window_step[OF assms(2,3)] show ?thesis
    by (auto simp: verify_signature_def time_time_def Let_def sg)
qed

theorem sign_verify_within_window_witness:
  "fst (verify_signature (local_env 299)
          (snd (sign_payload (local_env 299) empty_world ''s1'' ''{}'')) ''s1'' ''{}''
          (fst (sign_payload (local_env 299) empty_world ''s1'' ''{}'')))"
proof -
  have signed: "sign_payload (local_env 299) empty_world ''s1'' ''{}''
                 = (fst (sign_payload (local_env 299) empty_world ''s1'' ''{}''),
                    snd (sign_payload (local_env 299) empty_world ''s1'' ''{}''))"
    by simp
  have later: "clock (local_env 299) (ticks empty_world)
                 \<le> clock (local_env 299)
                      (ticks (snd (sign_payload (local_env 299) empty_world ''s1'' ''{}'')))"
    by (simp add: run_defs)
  have soon: "clock (local_env 299)
                (ticks (snd (sign_payload (local_env 299) empty_world ''s1'' ''{}'')))
                \<le> clock (local_env 299) (ticks empty_world) + WINDOW_SECONDS"
    by (simp add: run_defs)
  from sign_verify_within_window[OF signed later soon] show ?thesis .
qed

text \<open>
  C2, as the specification states it, fails: a payload signed at \<open>t = 299\<close>, in window 0,
  is refused at \<open>t = 600\<close>, 301 seconds later and well within \<open>2 * WINDOW_SECONDS\<close>,
  because the verifier then accepts windows 2 and 1 only.
\<close>

theorem sign_verify_two_windows_counterexample:
  "clock late_env 1 - clock late_env 0 \<le> 2 * WINDOW_SECONDS
   \<and> ticks empty_world = 0
   \<and> ticks (snd (sign_payload late_env empty_world ''s1'' ''{}'')) = 1
   \<and> \<not> fst (verify_signature late_env
              (snd (sign_payload late_env empty_world ''s1'' ''{}'')) ''s1'' ''{}''
              (fst (sign_payload late_env empty_world ''s1'' ''{}'')))"
  by (simp add: run_defs)

section \<open>The validator\<close>

lemmas validator_defs =
  ValidatorAgent_run_def verify_with_ai_def remote_verify_def local_verify_def
  compare_value_def py_get_def bind_exn_def try_except_def py_str_def lower_def strip_def
  is_space_def lower_char_def Let_def read_verdict_def word_challenge_def

lemma no_captcha_no_active:
  assumes "\<And>s. sessions w sid = Some s \<Longrightarrow> captcha s = None"
  shows "fst (ValidatorAgent_run E w sid a) = Inr no_active_captcha"
proof (cases "InMemorySession_get E w sid")
  case (Pair r w1)
  show ?thesis
  proof (cases r)
    case None
    with Pair show ?thesis by (simp add: ValidatorAgent_run_def)
  next
    case (Some s)
    with Pair get_Some[of E w sid s w1] assms have "captcha s = None" by simp
    with Pair Some show ?thesis by (simp add: ValidatorAgent_run_def)
  qed
qed

lemma remote_verify_keeps:
  "remote_verify E w = (r, w') \<Longrightarrow>
     sessions w' = sessions w \<and> last_cleanup w' = last_cleanup w \<and> ticks w' = ticks w
     \<and> judged w' = judged w"
  by (auto simp: remote_verify_def post_prompt_def Let_def
      split: if_splits option.splits sum.splits)

lemma verify_with_ai_keeps:
  assumes "verify_with_ai E w c a = (r, w')"
  shows "sessions w' = sessions w \<and> last_cleanup w' = last_cleanup w \<and> ticks w' = ticks w"
proof -
  obtain rm w1 where rv: "remote_verify E (w\<lparr>judged := Suc (judged w)\<rparr>) = (rm, w1)"
    by (cases "remote_verify E (w\<lparr>judged := Suc (judged w)\<rparr>)")
  from assms rv have "w' = w1"
    by (auto simp: verify_with_ai_def split: option.splits)
  with remote_verify_keeps[OF rv] show ?thesis by simp
qed

lemma incorrect_path:
  assumes "ValidatorAgent_run E w sid a = (Inr r, w')"
    and "py_get r ''message'' JNull = Inr (JStr ''Incorrect captcha'')"
  shows "\<exists>s w4. sessions w sid = Some s \<and> sessions w4 = sessions w
           \<and> w' = InMemorySession_update E w4 sid
                    [Attempts (attempts s + 1), Last_attempt (clock E (Suc (Suc (ticks w))))]"
proof (cases "InMemorySession_get E w sid")
  case (Pair g w1)
  show ?thesis
  proof (cases g)
    case None
    with Pair assms show ?thesis
      by (auto simp: ValidatorAgent_run_def no_active_captcha_def py_get_def)
  next
    case (Some s)
    from get_Some[of E w sid s w1] Pair Some
    have w1: "w1 = w\<lparr>ticks := Suc (ticks w)\<rparr>" and s: "sessions w sid = Some s" by simp_all
    show ?thesis
    proof (cases "captcha s")
      case None
      with Pair Some assms show ?thesis
        by (auto simp: ValidatorAgent_run_def no_active_captcha_def py_get_def)
    next
      case (Some c)
      obtain valid w2 where vs:
        "verify_signature E w1 sid (json_dumps E (challenge c)) (signature c) = (valid, w2)"
        by (cases "verify_signature E w1 sid (json_dumps E (challenge c)) (signature c)")
      with verify_signature_world[of E w1 sid "json_dumps E (challenge c)" "signature c"]
      have w2: "w2 = w1\<lparr>ticks := Suc (ticks w1)\<rparr>" by simp
      let ?w3 = "w2\<lparr>ticks := Suc (ticks w2)\<rparr>"
      obtain vr w4 where va: "verify_with_ai E ?w3 (challenge c) a = (vr, w4)"
        by (cases "verify_with_ai E ?w3 (challenge c) a")
      from verify_with_ai_keeps[OF va] w1 w2 have keep: "sessions w4 = sessions w" by simp
      have now: "clock E (ticks w2) = clock E (Suc (Suc (ticks w)))" using w1 w2 by simp
      from assms Pair \<open>g = Some s\<close> Some vs va
      have "w' = InMemorySession_update E w4 sid
                    [Attempts (attempts s + 1), Last_attempt (clock E (ticks w2))]"
        by (auto simp: ValidatorAgent_run_def time_time_def Let_def bind_exn_def py_get_def
              signature_failed_def rate_limited_def
            split: if_splits sum.splits prod.splits)
      with s keep now show ?thesis by auto
    qed
  qed
qed

lemma incorrect_counts:
  assumes "ValidatorAgent_run E w sid a = (r, w')"
    and "judged_incorrect r"
    and "sessions w' sid = Some s'"
  shows "\<exists>s. sessions w sid = Some s \<and> attempts s' = attempts s + 1"
proof -
  from assms(2) obtain d where r: "r = Inr d"
    and m: "py_get d ''message'' JNull = Inr (JStr ''Incorrect captcha'')"
    by (cases r) (auto simp: judged_incorrect_def)
  from incorrect_path[OF assms(1)[unfolded r] m] obtain s w4
    where s: "sessions w sid = Some s" and k: "sessions w4 = sessions w"
      and w': "w' = InMemorySession_update E w4 sid
                    [Attempts (attempts s + 1), Last_attempt (clock E (Suc (Suc (ticks w))))]"
    by blast
  from update_sessions[of E w4 sid
      "[Attempts (attempts s + 1), Last_attempt (clock E (Suc (Suc (ticks w))))]"]
    assms(3) w' k s
  have "attempts s' = attempts s + 1" by auto
  with s show ?thesis by blast
qed

lemma submit_all_counts:
  assumes "submit_all E w sid as = (rs, w')"
    and "list_all judged_incorrect rs"
    and "sessions w' sid = Some s'"
  shows "\<exists>s. sessions w sid = Some s \<and> attempts s' = attempts s + int (length as)"
  using assms
proof (induction as arbitrary: w rs)
  case Nil
  then show ?case by simp
next
  case (Cons a as)
  obtain r w1 where run: "ValidatorAgent_run E w sid a = (r, w1)"
    by (cases "ValidatorAgent_run E w sid a")
  obtain rs' w2 where rest: "submit_all E w1 sid as = (rs', w2)"
    by (cases "submit_all E w1 sid as")
  from Cons.prems(1) run rest have rs: "rs = r # rs'" and w2: "w2 = w'" by simp_all
  from Cons.prems(2) rs have r: "judged_incorrect r" and rs': "list_all judged_incorrect rs'"
    by simp_all
  from Cons.IH[OF rest[unfolded w2] rs' Cons.prems(3)] obtain s1
    where s1: "sessions w1 sid = Some s1" and n: "attempts s' = attempts s1 + int (length as)"
    by blast
  from incorrect_counts[OF run r s1] obtain s
    where "sessions w sid = Some s" "attempts s1 = attempts s + 1" by blast
  with n show ?case by auto
qed

lemma success_clears:
  assumes "ValidatorAgent_run E w sid a = (Inr r, w')"
    and "py_get r ''success'' JNull = Inr (JBool True)"
  shows "\<exists>w5. w' = InMemorySession_update E w5 sid [Captcha None, Attempts 0]"
  using assms
  by (auto simp: ValidatorAgent_run_def time_time_def Let_def bind_exn_def py_get_def
         no_active_captcha_def signature_failed_def rate_limited_def
      split: prod.splits sum.splits if_splits option.splits)

lemma cleared_after_update:
  assumes "sessions (InMemorySession_update E w5 sid [Captcha None, Attempts 0]) sid = Some s'"
  shows "captcha s' = None \<and> attempts s' = 0"
  using update_sessions[of E w5 sid "[Captcha None, Attempts 0]"] assms by auto

lemma rate_limit_step:
  assumes "InMemorySession_get E w sid = (Some s, w1)"
    and "captcha s = Some c"
    and "verify_signature E w1 sid (json_dumps E (challenge c)) (signature c) = (True, w2)"
    and "attempts s \<ge> 6"
    and "clock E (ticks w2) - last_attempt s < 60"
  shows "ValidatorAgent_run E w sid a = (Inr rate_limited, w2\<lparr>ticks := Suc (ticks w2)\<rparr>)"
  using assms by (simp add: ValidatorAgent_run_def time_time_def Let_def)

lemma rate_limit_untouched:
  assumes "InMemorySession_get E w sid = (Some s, w1)"
    and "verify_signature E w1 sid p sg = (v, w2)"
  shows "sessions (w2\<lparr>ticks := Suc (ticks w2)\<rparr>) = sessions w
       \<and> judged (w2\<lparr>ticks := Suc (ticks w2)\<rparr>) = judged w
       \<and> posts (w2\<lparr>ticks := Suc (ticks w2)\<rparr>) = posts w"
  using get_Some[OF assms(1)] verify_signature_world[of E w1 sid p sg] assms(2) by simp

text \<open>
  C3. When the session holds a challenge whose stored signature verifies, its attempts
  counter is at least 6 and the clock reads less than 60 seconds after \<open>last_attempt\<close>,
  \<open>ValidatorAgent.run\<close> answers with the rate-limit error, and does so without entering
  \<open>verify_with_ai\<close> (\<open>judged\<close>), without a request to the remote oracle (\<open>posts\<close>) and
  without touching the session table.
\<close>

theorem rate_limit_rejects:
  assumes "InMemorySession_get E w sid = (Some s, w1)"
    and "captcha s = Some c"
    and "verify_signature E w1 sid (json_dumps E (challenge c)) (signature c) = (True, w2)"
    and "attempts s \<ge> 6"
    and "clock E (ticks w2) - last_attempt s < 60"
  shows "fst (ValidatorAgent_run E w sid a) = Inr rate_limited
       \<and> judged (snd (ValidatorAgent_run E w sid a)) = judged w
       \<and> posts (snd (ValidatorAgent_run E w sid a)) = posts w
       \<and> sessions (snd (ValidatorAgent_run E w sid a)) = sessions w"
  using rate_limit_step[OF assms, of a] rate_limit_untouched[OF assms(1,3)] by simp

theorem rate_limit_rejects_witness:
  "fst (ValidatorAgent_run (local_env 1000)
          (one_session_world (issued_session word_challenge 6 995)) ''s1'' (JStr ''sol''))
     = Inr rate_limited
   \<and> judged (snd (ValidatorAgent_run (local_env 1000)
          (one_session_world (issued_session word_challenge 6 995)) ''s1'' (JStr ''sol''))) = 0"
proof -
  let ?E = "local_env 1000"
  let ?s = "issued_session word_challenge 6 995"
  let ?w = "one_session_world ?s"
  have g: "InMemorySession_get ?E ?w ''s1'' = (Some ?s, ?w\<lparr>ticks := 1\<rparr>)"
    by (simp add: run_defs)
  have c: "captcha ?s = Some \<lparr>challenge = word_challenge, signature = ''key/s1|{}|3'',
                              captcha_created = 900\<rparr>"
    by (simp add: issued_session_def)
  have v: "verify_signature ?E (?w\<lparr>ticks := 1\<rparr>) ''s1''
             (json_dumps ?E (challenge \<lparr>challenge = word_challenge,
                signature = ''key/s1|{}|3'', captcha_created = 900\<rparr>))
             (signature \<lparr>challenge = word_challenge, signature = ''key/s1|{}|3'',
                captcha_created = 900\<rparr>)
           = (True, ?w\<lparr>ticks := 2\<rparr>)"
    by (simp add: run_defs)
  have n: "attempts ?s \<ge> 6" by (simp add: issued_session_def)
  have t: "clock ?E (ticks (?w\<lparr>ticks := 2\<rparr>)) - last_attempt ?s < 60"
    by (simp add: run_defs)
  from rate_limit_rejects[OF g c v n t, of "JStr ''sol''"] show ?thesis
    by (simp add: one_session_world_def sample_world_def)
qed

text \<open>
  A consequence for a client that keeps guessing: every answer judged incorrect adds one
  to the attempts counter, so after six of them in a row the counter is at least 6, and
  a seventh submission less than 60 seconds after the sixth is turned away with the
  rate-limit error before the oracle is asked.
\<close>

corollary seventh_attempt_rejected:
  assumes "sessions w sid = Some s0" and "attempts s0 \<ge> 0"
    and "submit_all E w sid answers = (rs, w6)" and "length answers = 6"
    and "list_all judged_incorrect rs"
    and "InMemorySession_get E w6 sid = (Some s, w7)"
    and "captcha s = Some c"
    and "verify_signature E w7 sid (json_dumps E (challenge c)) (signature c) = (True, w8)"
    and "clock E (ticks w8) - last_attempt s < 60"
  shows "fst (ValidatorAgent_run E w6 sid a) = Inr rate_limited
       \<and> judged (snd (ValidatorAgent_run E w6 sid a)) = judged w6"
proof -
  from get_Some[OF assms(6)] have "sessions w6 sid = Some s" by simp
  from submit_all_counts[OF assms(3,5) this] assms(1,2,4) have "attempts s \<ge> 6" by auto
  from rate_limit_step[OF assms(6,7,8) this assms(9), of a]
    rate_limit_untouched[OF assms(6,8)]
  show ?thesis by simp
qed

text \<open>
  C10. A submission turned away because the stored signature does not verify, or because
  of the rate limit, leaves the session table as it was: no attempt is counted,
  \<open>last_attempt\<close> keeps its value and the challenge stays; no sweep runs either.
\<close>

theorem rejection_keeps_store:
  assumes "ValidatorAgent_run E w sid a = (Inr r, w')"
    and "r = signature_failed \<or> r = rate_limited"
  shows "sessions w' = sessions w \<and> last_cleanup w' = last_cleanup w"
proof (cases "InMemorySession_get E w sid")
  case (Pair g w1)
  show ?thesis
  proof (cases g)
    case None
    with Pair assms show ?thesis
      by (auto simp: ValidatorAgent_run_def no_active_captcha_def signature_failed_def rate_limited_def)
  next
    case (Some s)
    from get_Some[of E w sid s w1] Pair Some
    have w1: "w1 = w\<lparr>ticks := Suc (ticks w)\<rparr>" by simp
    show ?thesis
    proof (cases "captcha s")
      case None
      with Pair Some assms show ?thesis
        by (auto simp: ValidatorAgent_run_def no_active_captcha_def signature_failed_def rate_limited_def)
    next
      case (Some c)
      obtain valid w2 where vs: "verify_signature E w1 sid (json_dumps E (challenge c)) (signature c) = (valid, w2)"
        by (cases "verify_signature E w1 sid (json_dumps E (challenge c)) (signature c)")
      with verify_signature_world[of E w1 sid "json_dumps E (challenge c)" "signature c"]
      have w2: "w2 = w1\<lparr>ticks := Suc (ticks w1)\<rparr>" by simp
      show ?thesis
      proof (cases valid)
        case False
        with Pair \<open>g = Some s\<close> Some vs assms(1) have "w' = w2"
          by (simp add: ValidatorAgent_run_def)
        with w1 w2 show ?thesis by simp
      next
        case True
        show ?thesis
        proof (cases "attempts s \<ge> 6 \<and> clock E (ticks w2) - last_attempt s < 60")
          case True
          with Pair \<open>g = Some s\<close> Some vs \<open>valid\<close> assms(1) have "w' = w2\<lparr>ticks := Suc (ticks w2)\<rparr>"
            by (simp add: ValidatorAgent_run_def time_time_def)
          with w1 w2 show ?thesis by simp
        next
          case False
          with Pair \<open>g = Some s\<close> Some vs \<open>valid\<close> assms show ?thesis
            by (auto simp: ValidatorAgent_run_def time_time_def Let_def bind_exn_def
                   signature_failed_def rate_limited_def
                split: prod.splits sum.splits if_splits)
        qed
      qed
    qed
  qed
qed

theorem rejection_keeps_store_witness:
  "sessions (snd (ValidatorAgent_run (local_env 1000)
       (one_session_world (issued_session word_challenge 6 995)) ''s1'' (JStr ''sol''))) ''s1''
     = Some (issued_session word_challenge 6 995)"
proof -
  let ?E = "local_env 1000"
  let ?w = "one_session_world (issued_session word_challenge 6 995)"
  let ?run = "ValidatorAgent_run ?E ?w ''s1'' (JStr ''sol'')"
  have "fst ?run = Inr rate_limited"
    by (simp add: ValidatorAgent_run_def run_defs)
  then have run: "?run = (Inr rate_limited, snd ?run)"
    by (metis prod.collapse)
  have which: "rate_limited = signature_failed \<or> rate_limited = rate_limited" by simp
  from rejection_keeps_store[OF run which] show ?thesis
    by (simp add: one_session_world_def sample_world_def)
qed

text \<open>
  C5. Once a submission has come back with \<open>success\<close> true, that is once the oracle has
  judged the answer correct, the session no longer holds a challenge and its attempts
  counter is 0 (if the session has not been swept away meanwhile), and whatever is
  submitted next on that session is answered with the no-active-captcha error.
\<close>

theorem correct_answer_clears:
  assumes "ValidatorAgent_run E w sid a = (Inr r, w')"
    and "py_get r ''success'' JNull = Inr (JBool True)"
  shows "(\<forall>s'. sessions w' sid = Some s' \<longrightarrow> captcha s' = None \<and> attempts s' = 0)
       \<and> fst (ValidatorAgent_run E w' sid b) = Inr no_active_captcha"
proof -
  from success_clears[OF assms] obtain w5
    where w': "w' = InMemorySession_update E w5 sid [Captcha None, Attempts 0]" by blast
  have cleared: "captcha s' = None \<and> attempts s' = 0" if "sessions w' sid = Some s'" for s'
    using cleared_after_update that w' by blast
  then have "fst (ValidatorAgent_run E w' sid b) = Inr no_active_captcha"
    by (intro no_captcha_no_active) simp
  with cleared show ?thesis by blast
qed

theorem correct_answer_clears_witness:
  "fst (ValidatorAgent_run (local_env 1000)
         (snd (ValidatorAgent_run (local_env 1000)
                 (one_session_world (issued_session word_challenge 0 0)) ''s1''
                 (JStr '' SoL ''))) ''s1'' (JStr ''sol'')) = Inr no_active_captcha"
proof -
  let ?E = "local_env 1000"
  let ?w = "one_session_world (issued_session word_challenge 0 0)"
  let ?run = "ValidatorAgent_run ?E ?w ''s1'' (JStr '' SoL '')"
  let ?r = "JDict [(''success'', JBool True), (''message'', JStr ''Captcha correct''),
                   (''explanation'', JStr ''fallback-exact-compare''),
                   (''normalized'', JStr ''sol'')]"
  have "fst ?run = Inr ?r"
    by (simp add: validator_defs run_defs)
  then have run: "?run = (Inr ?r, snd ?run)"
    by (metis prod.collapse)
  have ok: "py_get ?r ''success'' JNull = Inr (JBool True)"
    by (simp add: py_get_def)
  from correct_answer_clears[OF run ok, of "JStr ''sol''"] show ?thesis by simp
qed

section \<open>The local judge\<close>

lemma is_verdict_dict [simp]:
  "is_verdict (JDict ((''ok'', JBool a) # (''correct'', JBool b) # rest))"
  by (simp add: is_verdict_def py_get_def)

lemma compare_value_verdict:
  "compare_value E tag sol a = Inr r \<Longrightarrow> is_verdict r"
  by (auto simp: compare_value_def bind_exn_def Let_def split: sum.splits)

lemma verify_pattern_verdict:
  "verify_pattern sol a = Inr r \<Longrightarrow> is_verdict r"
  by (auto simp: verify_pattern_def bind_exn_def split: sum.splits if_splits)

lemma verify_point_verdict:
  "verify_point sol a = Inr r \<Longrightarrow> is_verdict r"
  by (auto simp: verify_point_def bind_exn_def Let_def split: sum.splits option.splits)

lemma verify_image_verdict:
  "verify_image E sol a = Inr r \<Longrightarrow> is_verdict r"
  by (auto simp: verify_image_def bind_exn_def try_except_def
      dest: compare_value_verdict verify_point_verdict split: sum.splits if_splits)

lemma local_verify_verdict:
  "local_verify E ch a = Inr r \<Longrightarrow> is_verdict r"
  unfolding local_verify_def bind_exn_def
  by (auto dest: compare_value_verdict verify_pattern_verdict verify_image_verdict
      split: sum.splits if_splits)

lemma remote_verdict_verdict:
  "remote_verdict data = Inr r \<Longrightarrow> is_verdict r"
  by (auto simp: remote_verdict_def bind_exn_def split: sum.splits)

lemma remote_verify_verdict:
  "remote_verify E w = (Some r, w') \<Longrightarrow> is_verdict r"
  by (auto simp: remote_verify_def post_prompt_def Let_def dest: remote_verdict_verdict
      split: if_splits option.splits sum.splits)

lemma verify_with_ai_returns:
  "\<exists>r. fst (verify_with_ai E w ch a) = Inr r \<and> is_verdict r"
proof (cases "remote_verify E (w\<lparr>judged := Suc (judged w)\<rparr>)")
  case (Pair remote w1)
  show ?thesis
  proof (cases remote)
    case (Some r)
    with Pair remote_verify_verdict[of E _ r w1] show ?thesis
      by (simp add: verify_with_ai_def)
  next
    case None
    show ?thesis
    proof (cases "local_verify E ch a")
      case (Inl e)
      with Pair None show ?thesis by (simp add: verify_with_ai_def try_except_def)
    next
      case (Inr r)
      with Pair None local_verify_verdict[of E ch a r] show ?thesis
        by (simp add: verify_with_ai_def try_except_def)
    qed
  qed
qed

lemma verify_with_ai_exception:
  assumes "fst (remote_verify E (w\<lparr>judged := Suc (judged w)\<rparr>)) = None"
    and "local_verify E ch a = Inl e"
  shows "fst (verify_with_ai E w ch a) =
           Inr (JDict [(''ok'', JBool False), (''correct'', JBool False),
                       (''explanation'', JStr ''fallback-exception''),
                       (''error'', JStr (str_exn e))])"
  using assms by (auto simp: verify_with_ai_def try_except_def split: prod.splits)

lemma verify_with_ai_unknown:
  assumes "fst (remote_verify E (w\<lparr>judged := Suc (judged w)\<rparr>)) = None"
    and "py_get ch ''captcha_type'' JNull = Inr t"
    and "t \<notin> set [JStr ''text'', JStr ''math'', JStr ''audio'', JStr ''pattern'', JStr ''image'', JStr ''color'']"
  shows "fst (verify_with_ai E w ch a) =
           Inr (JDict [(''ok'', JBool False), (''correct'', JBool False),
                       (''explanation'', JStr ''unsupported-type-fallback'')])"
  using assms 
  by (auto simp: verify_with_ai_def try_except_def local_verify_def bind_exn_def py_get_def
      split: prod.splits json.splits)

lemma verify_with_ai_image_exception:
  assumes "fst (remote_verify E (w\<lparr>judged := Suc (judged w)\<rparr>)) = None"
    and "py_get ch ''captcha_type'' JNull = Inr (JStr ''image'')"
    and "py_get ch ''solution'' (JDict []) = Inr sol"
    and "py_contains ''x'' sol = Inr True" and "py_contains ''y'' sol = Inr True"
    and "verify_point sol a = Inl e"
  shows "fst (verify_with_ai E w ch a) =
           Inr (JDict [(''ok'', JBool False), (''correct'', JBool False),
                       (''explanation'', JStr ''fallback-exception-image''),
                       (''error'', JStr (str_exn e))])"
  using assms
  by (auto simp: verify_with_ai_def try_except_def local_verify_def verify_image_def
        bind_exn_def split: prod.splits)

text \<open>
  C9. \<open>verify_with_ai\<close> always returns, and what it returns is a verdict with boolean
  \<open>ok\<close> and \<open>correct\<close>; it never raises. When the remote oracle gives no verdict and the
  local heuristics raise, the exception becomes the verdict \<open>ok\<close> false, \<open>correct\<close> false
  with the explanation \<open>fallback-exception\<close> (\<open>fallback-exception-image\<close> inside the
  click-target branch) and the text of the exception under \<open>error\<close>; a challenge of
  none of the six types gets \<open>ok\<close> false and \<open>correct\<close> false.
\<close>

theorem verify_with_ai_never_raises:
  "(\<exists>r. fst (verify_with_ai E w ch a) = Inr r \<and> is_verdict r)
   \<and> (fst (remote_verify E (w\<lparr>judged := Suc (judged w)\<rparr>)) = None \<longrightarrow>
        local_verify E ch a = Inl e \<longrightarrow>
        fst (verify_with_ai E w ch a) =
          Inr (JDict [(''ok'', JBool False), (''correct'', JBool False),
                      (''explanation'', JStr ''fallback-exception''),
                      (''error'', JStr (str_exn e))]))
   \<and> (fst (remote_verify E (w\<lparr>judged := Suc (judged w)\<rparr>)) = None \<longrightarrow>
        py_get ch ''captcha_type'' JNull = Inr (JStr ''image'') \<longrightarrow>
        py_get ch ''solution'' (JDict []) = Inr sol \<longrightarrow>
        py_contains ''x'' sol = Inr True \<longrightarrow> py_contains ''y'' sol = Inr True \<longrightarrow>
        verify_point sol a = Inl e \<longrightarrow>
        fst (verify_with_ai E w ch a) =
          Inr (JDict [(''ok'', JBool False), (''correct'', JBool False),
                      (''explanation'', JStr ''fallback-exception-image''),
                      (''error'', JStr (str_exn e))]))
   \<and> (fst (remote_verify E (w\<lparr>judged := Suc (judged w)\<rparr>)) = None \<longrightarrow>
        py_get ch ''captcha_type'' JNull = Inr t \<longrightarrow>
        t \<notin> set [JStr ''text'', JStr ''math'', JStr ''audio'', JStr ''pattern'',
                   JStr ''image'', JStr ''color''] \<longrightarrow>
        fst (verify_with_ai E w ch a) =
          Inr (JDict [(''ok'', JBool False), (''correct'', JBool False),
                      (''explanation'', JStr ''unsupported-type-fallback'')]))"
  using verify_with_ai_returns[of E w ch a] verify_with_ai_exception[of E w ch a e]
    verify_with_ai_image_exception[of E w ch sol a e] verify_with_ai_unknown[of E w ch t a]
  by blast

theorem verify_with_ai_never_raises_witness:
  "fst (verify_with_ai (local_env 1000) empty_world JNull (JStr ''sol'')) =
     Inr (JDict [(''ok'', JBool False), (''correct'', JBool False),
                 (''explanation'', JStr ''fallback-exception''),
                 (''error'', JStr ''object has no attribute get'')])
   \<and> fst (verify_with_ai (local_env 1000) empty_world
            (JDict [(''captcha_type'', JStr ''puzzle'')]) (JStr ''sol'')) =
     Inr (JDict [(''ok'', JBool False), (''correct'', JBool False),
                 (''explanation'', JStr ''unsupported-type-fallback'')])"
proof -
  let ?E = "local_env 1000"
  have remote: "fst (remote_verify ?E (empty_world\<lparr>judged := Suc (judged empty_world)\<rparr>)) = None"
    by (simp add: remote_verify_def run_defs)
  have raised: "local_verify ?E JNull (JStr ''sol'')
                  = Inl (Exn ''AttributeError'' ''object has no attribute get'')"
    by (simp add: local_verify_def py_get_def bind_exn_def)
  have kind: "py_get (JDict [(''captcha_type'', JStr ''puzzle'')]) ''captcha_type'' JNull
                = Inr (JStr ''puzzle'')"
    by (simp add: py_get_def)
  have unknown: "JStr ''puzzle'' \<notin> set [JStr ''text'', JStr ''math'', JStr ''audio'',
                    JStr ''pattern'', JStr ''image'', JStr ''color'']"
    by simp
  from verify_with_ai_never_raises[of ?E empty_world JNull "JStr ''sol''"
         "Exn ''AttributeError'' ''object has no attribute get''"]
       remote raised
  have first: "fst (verify_with_ai ?E empty_world JNull (JStr ''sol'')) =
     Inr (JDict [(''ok'', JBool False), (''correct'', JBool False),
                 (''explanation'', JStr ''fallback-exception''),
                 (''error'', JStr ''object has no attribute get'')])"
    by simp
  from verify_with_ai_never_raises[of ?E empty_world
         "JDict [(''captcha_type'', JStr ''puzzle'')]" "JStr ''sol''" _ _ "JStr ''puzzle''"]
       remote kind unknown
  have second: "fst (verify_with_ai ?E empty_world
            (JDict [(''captcha_type'', JStr ''puzzle'')]) (JStr ''sol'')) =
     Inr (JDict [(''ok'', JBool False), (''correct'', JBool False),
                 (''explanation'', JStr ''unsupported-type-fallback'')])"
    by blast
  from first second show ?thesis by (rule conjI)
qed

subsection \<open>Pattern challenges\<close>

lemma py_eq_int_lists:
  "py_eq (JList (map JInt us)) (JList (map JInt seq)) = (us = seq)"
proof -
  have "list_all2 py_eq (map JInt us) (map JInt seq) = (us = seq)"
  proof (induction us arbitrary: seq)
    case Nil
    then show ?case by (cases seq) auto
  next
    case (Cons u us)
    then show ?case by (cases seq) auto
  qed
  then show ?thesis by simp
qed

lemma dropWhile_space_digits:
  "isdigit t \<Longrightarrow> dropWhile is_space t = t"
  by (cases t) (auto simp: isdigit_def is_digit_char_def is_space_def Let_def)

lemma isdigit_rev: "isdigit t \<Longrightarrow> isdigit (rev t)"
  by (simp add: isdigit_def list_all_iff)

lemma strip_digits: "isdigit t \<Longrightarrow> strip t = t"
  by (simp add: strip_def dropWhile_space_digits isdigit_rev)

lemma split_on_none:
  "sep \<notin> set t \<Longrightarrow> split_on sep t = [t]"
  by (induction t) auto

lemma digits_no_underscore: "isdigit t \<Longrightarrow> CHR ''_'' \<notin> set t"
  by (auto simp: isdigit_def list_all_iff is_digit_char_def Let_def)

lemma int_of_str_digits:
  assumes "isdigit t"
  shows "int_of_str t = Inr (digits_val t)"
proof -
  obtain c r where t: "t = c # r" using assms by (cases t) (auto simp: isdigit_def)
  have c: "c \<noteq> CHR ''-''" "c \<noteq> CHR ''+''"
    using assms t by (auto simp: isdigit_def is_digit_char_def Let_def)
  show ?thesis
    using assms c t split_on_none[OF digits_no_underscore[OF assms]]
    by (simp add: int_of_str_def strip_digits Let_def)
qed

lemma map_exn_indices:
  "map_exn (\<lambda>x. int_of_str (strip x)) (filter (\<lambda>x. isdigit (strip x)) xs)
     = Inr (map (\<lambda>x. digits_val (strip x)) (filter (\<lambda>x. isdigit (strip x)) xs))"
  by (induction xs) (auto simp: bind_exn_def int_of_str_digits)

lemma hypot_le_iff:
  "hypot dx dy \<le> real_of_int t \<longleftrightarrow> 0 \<le> t \<and> dx * dx + dy * dy \<le> t * t"
proof (cases "0 \<le> t")
  case True
  have "sqrt (real_of_int (dx * dx + dy * dy)) \<le> real_of_int t
        \<longleftrightarrow> real_of_int (dx * dx + dy * dy) \<le> (real_of_int t)\<^sup>2"
    using True by (metis of_int_0_le_iff real_sqrt_le_iff real_sqrt_abs abs_of_nonneg)
  also have "\<dots> \<longleftrightarrow> dx * dx + dy * dy \<le> t * t"
    by (metis of_int_le_iff of_int_mult power2_eq_square)
  finally show ?thesis using True by (simp add: hypot_def)
next
  case False
  have "0 \<le> hypot dx dy" by (simp add: hypot_def)
  with False show ?thesis by auto
qed

lemma local_pattern:
  assumes "map_of ch ''captcha_type'' = Some (JStr ''pattern'')"
    and "map_of ch ''solution'' = Some (JDict sol)"
    and "map_of sol ''sequence'' = Some (JList (map JInt seq))"
    and "seq \<noteq> []"
  shows "local_verify E (JDict ch) a =
          bind_exn (pattern_user_seq a) (\<lambda>user_seq.
            Inr (JDict [(''ok'', JBool True),
                        (''correct'', JBool (py_eq user_seq (JList (map JInt seq)))),
                        (''explanation'', JStr ''fallback-sequence-compare''),
                        (''normalized_answer'', user_seq)]))"
  using assms by (simp add: local_verify_def verify_pattern_def bind_exn_def py_get_def)

lemma verify_with_ai_local:
  assumes "fst (remote_verify E (w\<lparr>judged := Suc (judged w)\<rparr>)) = None"
    and "local_verify E ch a = Inr r"
  shows "fst (verify_with_ai E w ch a) = Inr r"
  using assms by (auto simp: verify_with_ai_def try_except_def split: prod.splits)

lemma pattern_list_answer:
  assumes "map_of ch ''captcha_type'' = Some (JStr ''pattern'')"
    and "map_of ch ''solution'' = Some (JDict sol)"
    and "map_of sol ''sequence'' = Some (JList (map JInt seq))"
    and "seq \<noteq> []"
  shows "local_verify E (JDict ch) (JList (map JInt us)) =
           Inr (JDict [(''ok'', JBool True), (''correct'', JBool (us = seq)),
                       (''explanation'', JStr ''fallback-sequence-compare''),
                       (''normalized_answer'', JList (map JInt us))])"
  by (simp only: local_pattern[OF assms] pattern_user_seq_def json.case bind_exn_def
        sum.case py_eq_int_lists)

lemma pattern_comma_answer:
  assumes "map_of ch ''captcha_type'' = Some (JStr ''pattern'')"
    and "map_of ch ''solution'' = Some (JDict sol)"
    and "map_of sol ''sequence'' = Some (JList (map JInt seq))"
    and "seq \<noteq> []"
    and "str_in '','' s"
  shows "local_verify E (JDict ch) (JStr s) =
           Inr (JDict [(''ok'', JBool True), (''correct'', JBool (indices s = seq)),
                       (''explanation'', JStr ''fallback-sequence-compare''),
                       (''normalized_answer'', JList (map JInt (indices s)))])"
proof -
  have "pattern_user_seq (JStr s) = Inr (JList (map JInt (indices s)))"
    using assms(5)
    by (simp add: pattern_user_seq_def bind_exn_def map_exn_indices indices_def)
  then show ?thesis
    by (simp only: local_pattern[OF assms(1-4)] bind_exn_def sum.case py_eq_int_lists)
qed

lemma pattern_label_answer:
  assumes "map_of ch ''captcha_type'' = Some (JStr ''pattern'')"
    and "map_of ch ''solution'' = Some (JDict sol)"
    and "map_of sol ''sequence'' = Some (JList (map JInt seq))"
    and "seq \<noteq> []"
    and "\<not> str_in '','' s"
  shows "local_verify E (JDict ch) (JStr s) =
           Inr (JDict [(''ok'', JBool True), (''correct'', JBool False),
                       (''explanation'', JStr ''fallback-sequence-compare''),
                       (''normalized_answer'', JStr s)])"
  using assms(5) by (simp add: local_pattern[OF assms(1-4)] pattern_user_seq_def bind_exn_def)

text \<open>
  C6, as the code has it. For a pattern challenge whose \<open>solution.sequence\<close> is a
  non-empty list of integers, the local judge compares sequences exactly and in order:
  a list of integers is correct iff it is the sequence; a string with a comma is read
  as the integers of its comma-separated digit pieces (blanks around a piece are
  dropped, pieces that are no digits are skipped) and is correct iff these are the
  sequence; a string without a comma is taken for a label and is never correct.
\<close>

theorem pattern_exact_sequence:
  assumes "fst (remote_verify E (w\<lparr>judged := Suc (judged w)\<rparr>)) = None"
    and "map_of ch ''captcha_type'' = Some (JStr ''pattern'')"
    and "map_of ch ''solution'' = Some (JDict sol)"
    and "map_of sol ''sequence'' = Some (JList (map JInt seq))"
    and "seq \<noteq> []"
  shows "fst (verify_with_ai E w (JDict ch) (JList (map JInt us))) =
           Inr (JDict [(''ok'', JBool True), (''correct'', JBool (us = seq)),
                       (''explanation'', JStr ''fallback-sequence-compare''),
                       (''normalized_answer'', JList (map JInt us))])
       \<and> (str_in '','' s \<longrightarrow>
            fst (verify_with_ai E w (JDict ch) (JStr s)) =
              Inr (JDict [(''ok'', JBool True), (''correct'', JBool (indices s = seq)),
                          (''explanation'', JStr ''fallback-sequence-compare''),
                          (''normalized_answer'', JList (map JInt (indices s)))]))
       \<and> (\<not> str_in '','' s \<longrightarrow>
            fst (verify_with_ai E w (JDict ch) (JStr s)) =
              Inr (JDict [(''ok'', JBool True), (''correct'', JBool False),
                          (''explanation'', JStr ''fallback-sequence-compare''),
                          (''normalized_answer'', JStr s)]))"
  using verify_with_ai_local[OF assms(1) pattern_list_answer[OF assms(2-5)]]
    verify_with_ai_local[OF assms(1) pattern_comma_answer[OF assms(2-5)]]
    verify_with_ai_local[OF assms(1) pattern_label_answer[OF assms(2-5)]]
  by blast

theorem pattern_exact_sequence_witness:
  "correct_of (fst (verify_with_ai (local_env 1000) empty_world (pattern_challenge [0, 1, 2])
                 (JList [JInt 2, JInt 0, JInt 1]))) = Some False
   \<and> correct_of (fst (verify_with_ai (local_env 1000) empty_world (pattern_challenge [0, 1, 2])
                 (JList [JInt 0, JInt 1, JInt 2]))) = Some True
   \<and> correct_of (fst (verify_with_ai (local_env 1000) empty_world (pattern_challenge [0, 1, 2])
                 (JStr ''0, 1,2''))) = Some True
   \<and> correct_of (fst (verify_with_ai (local_env 1000) empty_world (pattern_challenge [0, 1, 2])
                 (JStr ''012''))) = Some False"
proof -
  let ?E = "local_env 1000"
  let ?ch = "[(''captcha_id'', JStr ''c0ffee0''), (''captcha_type'', JStr ''pattern''),
              (''instructions'', JStr ''Click the shapes in the required order.''),
              (''ui_data'', JDict [(''shapes'', JList [JStr ''A'', JStr ''B'', JStr ''C''])]),
              (''solution'', JDict [(''sequence'', JList (map JInt [0, 1, 2]))])]"
  have remote: "fst (remote_verify ?E (empty_world\<lparr>judged := Suc (judged empty_world)\<rparr>)) = None"
    by (simp add: remote_verify_def run_defs)
  have kind: "map_of ?ch ''captcha_type'' = Some (JStr ''pattern'')" by simp
  have sol: "map_of ?ch ''solution'' = Some (JDict [(''sequence'', JList (map JInt [0, 1, 2]))])"
    by simp
  have seq: "map_of [(''sequence'', JList (map JInt [0, 1, 2]))] ''sequence''
               = Some (JList (map JInt [0, 1, 2]))"
    by simp
  have ne: "[0, 1, 2] \<noteq> ([] :: int list)" by simp
  have comma: "str_in '','' ''0, 1,2''" by simp
  have nocomma: "\<not> str_in '','' ''012''" by simp
  have read: "indices ''0, 1,2'' = [0, 1, 2]"
    by (simp add: indices_def strip_def is_space_def isdigit_def is_digit_char_def
          digits_val_def digit_val_def)
  note inst = pattern_exact_sequence[OF remote kind sol seq ne]
  have a: "correct_of (fst (verify_with_ai ?E empty_world (JDict ?ch)
             (JList (map JInt [2, 0, 1])))) = Some False"
    using inst[of "[2, 0, 1]" "''012''"] by (simp add: correct_of_def py_get_def)
  have b: "correct_of (fst (verify_with_ai ?E empty_world (JDict ?ch)
             (JList (map JInt [0, 1, 2])))) = Some True"
    using inst[of "[0, 1, 2]" "''012''"] by (simp add: correct_of_def py_get_def)
  have c: "correct_of (fst (verify_with_ai ?E empty_world (JDict ?ch)
             (JStr ''0, 1,2''))) = Some True"
    using inst[of "[0, 1, 2]" "''0, 1,2''"] comma read by (simp add: correct_of_def py_get_def)
  have d: "correct_of (fst (verify_with_ai ?E empty_world (JDict ?ch)
             (JStr ''012''))) = Some False"
    using inst[of "[0, 1, 2]" "''012''"] nocomma by (simp add: correct_of_def py_get_def)
  from a b c d show ?thesis by (simp add: pattern_challenge_def)
qed

text \<open>
  C6, as the specification states it, fails where the stored sequence is empty: the
  judge then falls back on \<open>solution.value\<close>, which is absent, and the answer \<open>[]\<close>,
  equal to the sequence, is judged incorrect.
\<close>

theorem pattern_empty_sequence_counterexample:
  "py_get (pattern_challenge []) ''solution'' JNull = Inr (JDict [(''sequence'', JList [])])
   \<and> correct_of (fst (verify_with_ai (local_env 1000) empty_world (pattern_challenge [])
                       (JList []))) = Some False"
  by (simp add: pattern_challenge_def correct_of_def verify_with_ai_def remote_verify_def
        local_verify_def verify_pattern_def pattern_user_seq_def py_get_def bind_exn_def
        try_except_def run_defs)

subsection \<open>Click-target challenges\<close>

lemma point_dict:
  assumes "map_of ad ''x'' = Some ax" "map_of ad ''y'' = Some ay"
    and "py_int ax = Inr ux" "py_int ay = Inr uy"
  shows "answer_point (JDict ad) = Inr (Some (ux, uy))"
  using assms by (simp add: answer_point_def py_get_def bind_exn_def)

lemma point_list:
  assumes "py_int ax = Inr ux" "py_int ay = Inr uy"
  shows "answer_point (JList (ax # ay # rest)) = Inr (Some (ux, uy))"
  using assms by (simp add: answer_point_def bind_exn_def)

lemma local_image_point:
  assumes "map_of ch ''captcha_type'' = Some (JStr ''image'')"
    and "map_of ch ''solution'' = Some (JDict sol)"
    and "map_of sol ''x'' = Some vx" "map_of sol ''y'' = Some vy"
    and "map_of sol ''tolerance'' = Some vt"
    and "py_int vx = Inr tx" "py_int vy = Inr ty" "py_int vt = Inr tol"
    and "answer_point a = Inr (Some (ux, uy))"
  shows "local_verify E (JDict ch) a =
           Inr (JDict [(''ok'', JBool True),
                       (''correct'', JBool (hypot (ux - tx) (uy - ty) \<le> real_of_int tol)),
                       (''explanation'', JStr ''fallback-point''),
                       (''normalized_answer'',
                        JDict [(''distance'', JFloat (hypot (ux - tx) (uy - ty)))])])"
proof -
  have kx: "''x'' \<in> fst ` set sol" "''y'' \<in> fst ` set sol"
    using assms(3,4) by (auto dest: map_of_SomeD intro: rev_image_eqI)
  have vp: "verify_point (JDict sol) a =
           Inr (JDict [(''ok'', JBool True),
                       (''correct'', JBool (hypot (ux - tx) (uy - ty) \<le> real_of_int tol)),
                       (''explanation'', JStr ''fallback-point''),
                       (''normalized_answer'',
                        JDict [(''distance'', JFloat (hypot (ux - tx) (uy - ty)))])])"
    using assms(3-9) by (simp add: verify_point_def py_get_def bind_exn_def Let_def)
  show ?thesis
    using assms(1,2) kx
    by (simp add: local_verify_def verify_image_def py_get_def py_contains_def bind_exn_def
          try_except_def vp)
qed

text \<open>
  C7. For an image challenge whose solution has \<open>x\<close>, \<open>y\<close> and \<open>tolerance\<close>, an answer
  given as a dictionary with \<open>x\<close> and \<open>y\<close> or as a list that starts with the two
  coordinates is judged correct iff the Euclidean distance between the answer and the
  target is at most the tolerance. (Coordinates and tolerance are what \<open>int\<close> makes of
  the stored and submitted values.)
\<close>

theorem click_within_tolerance:
  assumes "fst (remote_verify E (w\<lparr>judged := Suc (judged w)\<rparr>)) = None"
    and "map_of ch ''captcha_type'' = Some (JStr ''image'')"
    and "map_of ch ''solution'' = Some (JDict sol)"
    and "map_of sol ''x'' = Some vx" and "map_of sol ''y'' = Some vy"
    and "map_of sol ''tolerance'' = Some vt"
    and "py_int vx = Inr tx" and "py_int vy = Inr ty" and "py_int vt = Inr tol"
    and "py_int ax = Inr ux" and "py_int ay = Inr uy"
    and "a = JList (ax # ay # rest)
         \<or> (\<exists>d. a = JDict d \<and> map_of d ''x'' = Some ax \<and> map_of d ''y'' = Some ay)"
  shows "fst (verify_with_ai E w (JDict ch) a) =
           Inr (JDict [(''ok'', JBool True),
                       (''correct'',
                        JBool (sqrt (real_of_int ((ux - tx)\<^sup>2 + (uy - ty)\<^sup>2))
                                 \<le> real_of_int tol)),
                       (''explanation'', JStr ''fallback-point''),
                       (''normalized_answer'',
                        JDict [(''distance'',
                                JFloat (sqrt (real_of_int ((ux - tx)\<^sup>2 + (uy - ty)\<^sup>2))))])])"
proof -
  have "answer_point a = Inr (Some (ux, uy))"
    using assms(12) point_dict[OF _ _ assms(10,11)] point_list[OF assms(10,11)] by blast
  from verify_with_ai_local[OF assms(1) local_image_point[OF assms(2-9) this]]
  show ?thesis by (simp add: hypot_def power2_eq_square)
qed

theorem click_within_tolerance_witness:
  "correct_of (fst (verify_with_ai (local_env 1000) empty_world target_challenge
                 (JDict [(''x'', JInt 108), (''y'', JInt 105)]))) = Some True
   \<and> correct_of (fst (verify_with_ai (local_env 1000) empty_world target_challenge
                 (JDict [(''x'', JInt 120), (''y'', JInt 120)]))) = Some False
   \<and> correct_of (fst (verify_with_ai (local_env 1000) empty_world target_challenge
                 (JList [JInt 108, JInt 105]))) = Some True"
proof -
  let ?E = "local_env 1000"
  let ?sol = "[(''x'', JInt 100), (''y'', JInt 100), (''tolerance'', JInt 15)]"
  let ?ch = "[(''captcha_id'', JStr ''c0ffee0''), (''captcha_type'', JStr ''image''),
              (''instructions'', JStr ''Click the indicated target in the image.''),
              (''ui_data'', JDict []),
              (''solution'', JDict ?sol)]"
  have remote: "fst (remote_verify ?E (empty_world\<lparr>judged := Suc (judged empty_world)\<rparr>)) = None"
    by (simp add: remote_verify_def run_defs)
  have kind: "map_of ?ch ''captcha_type'' = Some (JStr ''image'')" by simp
  have sol: "map_of ?ch ''solution'' = Some (JDict ?sol)" by simp
  have x: "map_of ?sol ''x'' = Some (JInt 100)" by simp
  have y: "map_of ?sol ''y'' = Some (JInt 100)" by simp
  have t: "map_of ?sol ''tolerance'' = Some (JInt 15)" by simp
  have i: "py_int (JInt n) = Inr n" for n by simp
  have near: "sqrt 89 \<le> 15" by (rule real_le_lsqrt) simp_all
  have far: "\<not> sqrt 800 \<le> 15"
  proof -
    have "15 < sqrt 800" by (rule real_less_rsqrt) simp
    then show ?thesis by simp
  qed
  note inst = click_within_tolerance[OF remote kind sol x y t i i i i i]
  have a: "correct_of (fst (verify_with_ai ?E empty_world (JDict ?ch)
             (JDict [(''x'', JInt 108), (''y'', JInt 105)]))) = Some True"
    using inst[of "JDict [(''x'', JInt 108), (''y'', JInt 105)]" 108 105 "[]"] near
    by (simp add: correct_of_def py_get_def)
  have b: "correct_of (fst (verify_with_ai ?E empty_world (JDict ?ch)
             (JDict [(''x'', JInt 120), (''y'', JInt 120)]))) = Some False"
    using inst[of "JDict [(''x'', JInt 120), (''y'', JInt 120)]" 120 120 "[]"] far
    by (simp add: correct_of_def py_get_def)
  have c: "correct_of (fst (verify_with_ai ?E empty_world (JDict ?ch)
             (JList [JInt 108, JInt 105]))) = Some True"
    using inst[of "JList [JInt 108, JInt 105]" 108 105 "[]"] near
    by (simp add: correct_of_def py_get_def)
  from a b c show ?thesis by (simp add: target_challenge_def)
qed

end
